theory Spec2Isabelle
  imports
    Main
    "HOL-Library.List_Lexorder"
    "HOL-Library.Char_ord"
    "HOL-Library.Multiset"
    "HOL-Library.Word"
begin

section \<open>JSON values and JavaScript objects\<close>

text \<open>
  The claims, headers and schemas of \<^verbatim>\<open>jwt.js\<close> are plain JavaScript objects holding
  JSON data, as \<^verbatim>\<open>JSON.parse\<close> makes them: their prototype is \<^verbatim>\<open>Object.prototype\<close>. An
  object is the list of its own properties in the order the engine enumerates them
  (\<^verbatim>\<open>Object.keys\<close>); its keys are distinct (\<open>wf_json\<close>). Numbers are the integers that
  JavaScript holds exactly, those of magnitude below \<open>2 ^ 53\<close>: every number the module
  handles is a time stamp in seconds. A property that is absent reads as \<^verbatim>\<open>undefined\<close>,
  which is \<open>None\<close> here.
\<close>

datatype json =
    JNull
  | JBool bool
  | JNum int
  | JStr string
  | JArr "json list"
  | JObj "(string \<times> json) list"

type_synonym obj = "(string \<times> json) list"

type_synonym bytes = "8 word list"

fun wf_json :: "json \<Rightarrow> bool" where
  "wf_json (JObj kvs) = (distinct (map fst kvs) \<and> (\<forall>(k, v) \<in> set kvs. wf_json v))"
| "wf_json (JArr xs) = (\<forall>v \<in> set xs. wf_json v)"
| "wf_json _ = True"

text \<open>
  The own property of an object under a key, \<open>None\<close> if it has none. For an object whose
  prototype is \<^verbatim>\<open>Object.prototype\<close> that is \<^verbatim>\<open>obj[key]\<close> at every key that is not a
  property of \<^verbatim>\<open>Object.prototype\<close>; none of the keys that \<^verbatim>\<open>jwt.js\<close> reads by name is.
\<close>

definition getprop :: "obj \<Rightarrow> string \<Rightarrow> json option" where
  "getprop ob key = map_of ob key"

text \<open>
  Writing an own property: an existing property keeps its place, a new one is added
  last. (An engine lists the keys that are array indices before the others; the keys of
  claims, headers and schemas are not array indices.)
\<close>

fun setprop :: "obj \<Rightarrow> string \<Rightarrow> json \<Rightarrow> obj" where
  "setprop [] key v = [(key, v)]"
| "setprop ((k, w) # rest) key v =
     (if k = key then (k, v) # rest else (k, w) # setprop rest key v)"

subsection \<open>Objects with a prototype\<close>

text \<open>
  The target of \<^verbatim>\<open>Object.assign\<close> is an object with its own properties and a prototype:
  \<^verbatim>\<open>Object.prototype\<close> for a new object, and later \<^verbatim>\<open>null\<close> or a value that an
  assignment to \<^verbatim>\<open>__proto__\<close> has put there.
\<close>

datatype prototype = ObjectPrototype | NullPrototype | ValuePrototype json

record jsobject =
  props :: obj
  proto :: prototype

text \<open>
  A new object with the given own properties and \<^verbatim>\<open>Object.prototype\<close> as its
  prototype: what \<^verbatim>\<open>JSON.parse\<close> returns for an object of JSON data, and what the
  object literals of \<^verbatim>\<open>jwt.js\<close> and \<^verbatim>\<open>util.js\<close> make, \<^verbatim>\<open>{}\<close> for no property. (The
  key of the literal \<^verbatim>\<open>{[key]: val}\<close> is computed, so that \<open>val\<close> is an own property
  whatever the key is.)
\<close>

definition newObject :: "obj \<Rightarrow> jsobject" where
  "newObject ob = \<lparr>props = ob, proto = ObjectPrototype\<rparr>"

text \<open>
  \<^verbatim>\<open>Object.prototype\<close> has an accessor property \<^verbatim>\<open>__proto__\<close>. An assignment
  \<^verbatim>\<open>target.__proto__ = v\<close> to an object without an own property of that name reaches the
  setter of the accessor unless the prototype chain ends before it (the prototype is
  \<^verbatim>\<open>null\<close>) or the prototype has an own data property \<^verbatim>\<open>__proto__\<close> that hides it. The
  setter makes \<open>v\<close> the prototype if \<open>v\<close> is an object or \<^verbatim>\<open>null\<close>, and does nothing
  for another value.
\<close>

fun setterInherited :: "prototype \<Rightarrow> bool" where
  "setterInherited ObjectPrototype = True"
| "setterInherited NullPrototype = False"
| "setterInherited (ValuePrototype (JObj kvs)) = (getprop kvs ''__proto__'' = None)"
| "setterInherited (ValuePrototype v) = True"

fun protoSetter :: "prototype \<Rightarrow> json \<Rightarrow> prototype" where
  "protoSetter p JNull = NullPrototype"
| "protoSetter p (JObj kvs) = ValuePrototype (JObj kvs)"
| "protoSetter p (JArr xs) = ValuePrototype (JArr xs)"
| "protoSetter p v = p"

text \<open>
  \<^verbatim>\<open>target[key] = v\<close>: the assignment calls the inherited setter of \<^verbatim>\<open>__proto__\<close>, which
  makes no own property, and writes an own property in every other case.
\<close>

definition assignProperty :: "jsobject \<Rightarrow> string \<Rightarrow> json \<Rightarrow> jsobject" where
  "assignProperty target key v =
     (if key = ''__proto__'' \<and> getprop (props target) key = None
          \<and> setterInherited (proto target)
      then target\<lparr>proto := protoSetter (proto target) v\<rparr>
      else target\<lparr>props := setprop (props target) key v\<rparr>)"

text \<open>
  \<^verbatim>\<open>Object.assign(target, ...sources)\<close>: every own property of every source, in order,
  is assigned to the target. A source counts by its own properties only.
\<close>

definition objectAssign :: "jsobject \<Rightarrow> obj list \<Rightarrow> jsobject" where
  "objectAssign target sources =
     foldl (\<lambda>t source. foldl (\<lambda>t' (k, v). assignProperty t' k v) t source) target sources"

text \<open>
  Two values hold the same key-to-value mapping when they differ at most in the order in
  which the properties of their objects were inserted, at any depth.
\<close>

fun same_mapping :: "json \<Rightarrow> json \<Rightarrow> bool" where
  "same_mapping (JObj xs) (JObj ys) =
     (length xs = length ys \<and>
      (\<forall>(k, v) \<in> set xs. case map_of ys k of None \<Rightarrow> False | Some w \<Rightarrow> same_mapping v w))"
| "same_mapping (JArr xs) (JArr ys) = list_all2 same_mapping xs ys"
| "same_mapping a b = (a = b)"

subsection \<open>The store\<close>

text \<open>
  Objects live in a store and are passed by reference; a reference is an index into the
  store. An object literal allocates a new object; \<^verbatim>\<open>Object.assign\<close> writes to its
  target in place, one source after the other, and returns the target's reference.
\<close>

type_synonym store = "jsobject list"

type_synonym ref = nat

definition alloc :: "store \<Rightarrow> obj \<Rightarrow> store \<times> ref" where
  "alloc h ob = (h @ [newObject ob], length h)"

definition Object_assign :: "store \<Rightarrow> ref \<Rightarrow> ref list \<Rightarrow> store \<times> ref" where
  "Object_assign h target sources =
     (foldl (\<lambda>h' source. h'[target := objectAssign (h' ! target) [props (h' ! source)]])
        h sources,
      target)"

subsection \<open>Schemas\<close>

text \<open>
  A schema is a JavaScript object of JSON Schema keywords, kept in the order in which
  the source writes them. \<open>SchemaDraft\<close> is the entry \<^verbatim>\<open>$schema: Draft\<close>. A pattern
  \<open>ClassRepeat cs n\<close> is the regular expression \<^verbatim>\<open>^[cs]{n}$\<close>.
\<close>

datatype jtype = TObject | TString | TInteger | TArray

datatype pattern = ClassRepeat "char list" nat

datatype schema = Schema "keyword list"
and keyword =
    SchemaDraft
  | Title string
  | Type jtype
  | Enum "json list"
  | Pattern pattern
  | Required "string list"
  | Properties "(string \<times> schema) list"
  | Items schema
  | MinItems nat
  | UniqueItems bool
  | AllOf "schema list"
  | OneOf "schema list"
  | Readonly bool

subsection \<open>Metadata documents\<close>

text \<open>
  Modelled from the spec: the metadata documents and their schemas belong to
  \<^verbatim>\<open>meta.js\<close>, which is missing from these sources. The specification has a metadata
  document be a typed document with an \<^verbatim>\<open>@type\<close> and role-address lists, consumed
  read-only after \<^verbatim>\<open>validateMeta\<close> has accepted it. \<open>mtype\<close> is its \<^verbatim>\<open>@type\<close>; each
  of the five role-address lists that \<^verbatim>\<open>jwt.js\<close> reads is a list of addresses, or
  \<open>None\<close> when the document has no property of that name; \<open>other_props\<close> holds the
  properties that \<^verbatim>\<open>jwt.js\<close> does not read.
\<close>

record meta =
  mtype :: string
  artist :: "string list option"
  composer :: "string list option"
  lyricist :: "string list option"
  performer :: "string list option"
  producer :: "string list option"
  other_props :: obj

subsection \<open>Errors and the console\<close>

text \<open>
  One constructor for each \<^verbatim>\<open>throw new Error(...)\<close> of \<^verbatim>\<open>jwt.js\<close>, in the order of the
  source, and \<open>TypeError\<close> for a call of a method that the receiver does not have.
  \<open>KeyLength n m\<close> is "expected public key length=n; got m". Every function of the
  module catches what its body throws and prints it with \<^verbatim>\<open>console.error\<close>; the lines
  printed are returned with the result.
\<close>

datatype failure =
    KeyLength nat nat
  | ClaimsInvalidSchema
  | UnexpectedTyp
  | IatLaterThanNow
  | AudContainsIss
  | ExpNotAfterIat
  | ExpNotAfterNbf
  | ClaimsExpired
  | NbfNotAfterIat
  | ClaimsNotYetValid
  | JtiMismatch
  | SubMismatch
  | IssNotArtist
  | IssNotComposerOrLyricist
  | IssNotPerformerOrProducer
  | UnexpectedMetaType
  | HeaderInvalidSchema
  | PublicKeyAddrMismatch
  | InvalidEd25519Signature
  | InvalidSecp256k1Signature
  | TypeError

type_synonym console = "failure list"

text \<open>How a call ends for its caller: with a value, or with an error thrown to it.\<close>

datatype 'a outcome = Returns 'a | Throws failure

section \<open>JSON.stringify\<close>

text \<open>
  \<^verbatim>\<open>JSON.stringify(value, replacer, space)\<close> as ECMAScript defines it, on JSON data.
  \<open>showInt\<close> is Number::toString on an integer that JavaScript holds exactly, which
  is printed in full; \<open>quoteJSON\<close> is QuoteJSONString.
\<close>

fun showNat :: "nat \<Rightarrow> string" where
  "showNat n =
     (if n < 10 then [char_of (48 + n)]
      else showNat (n div 10) @ [char_of (48 + n mod 10)])"

definition showInt :: "int \<Rightarrow> string" where
  "showInt i = (if i < 0 then CHR ''-'' # showNat (nat (- i)) else showNat (nat i))"

definition hexDigit :: "nat \<Rightarrow> char" where
  "hexDigit d = (if d < 10 then char_of (48 + d) else char_of (87 + d))"

definition quoteChar :: "char \<Rightarrow> string" where
  "quoteChar c =
     (if c = CHR 0x22 then [CHR 0x5C, CHR 0x22]
      else if c = CHR 0x5C then [CHR 0x5C, CHR 0x5C]
      else if c = CHR 0x08 then [CHR 0x5C, CHR ''b'']
      else if c = CHR 0x0C then [CHR 0x5C, CHR ''f'']
      else if c = CHR 0x0A then [CHR 0x5C, CHR ''n'']
      else if c = CHR 0x0D then [CHR 0x5C, CHR ''r'']
      else if c = CHR 0x09 then [CHR 0x5C, CHR ''t'']
      else if (of_char c :: nat) < 32
        then [CHR 0x5C, CHR ''u'', CHR ''0'', CHR ''0'',
              hexDigit (of_char c div 16), hexDigit (of_char c mod 16)]
      else [c])"

definition quoteJSON :: "string \<Rightarrow> string" where
  "quoteJSON s = [CHR 0x22] @ concat (map quoteChar s) @ [CHR 0x22]"

fun join :: "string \<Rightarrow> string list \<Rightarrow> string" where
  "join sep [] = []"
| "join sep [x] = x"
| "join sep (x # y # ys) = x @ sep @ join sep (y # ys)"

text \<open>
  The keys a replacer function is called with, in call order, below the root: for an
  object each own key followed by the keys inside its value, for an array each index
  (as a string) followed by the keys inside the element.
\<close>

function keysOf :: "json \<Rightarrow> string list" where
  "keysOf (JObj kvs) = concat (map (\<lambda>(k, v). k # keysOf v) kvs)"
| "keysOf (JArr xs) = concat (map (\<lambda>(i, v). showNat i # keysOf v) (enumerate 0 xs))"
| "keysOf JNull = []"
| "keysOf (JBool b) = []"
| "keysOf (JNum n) = []"
| "keysOf (JStr s) = []"
  by pat_completeness auto
termination
proof (relation "measure size")
  show "wf (measure (size :: json \<Rightarrow> nat))" by simp
next
  fix kvs :: obj and x :: "string \<times> json" and k v
  assume "x \<in> set kvs" and "(k, v) = x"
  then have "size v \<le> size_prod (\<lambda>x. 0) size x" by auto
  also from \<open>x \<in> set kvs\<close> have "\<dots> \<le> size_list (size_prod (\<lambda>x. 0) size) kvs"
    by (simp add: size_list_estimation')
  finally show "(v, JObj kvs) \<in> measure size" by simp
next
  fix xs :: "json list" and x :: "nat \<times> json" and i v
  assume "x \<in> set (enumerate 0 xs)" and "(i, v) = x"
  then have "v \<in> set xs" by (auto simp: in_set_enumerate_eq)
  then have "size v \<le> size_list size xs" by (simp add: size_list_estimation')
  then show "(v, JArr xs) \<in> measure size" by simp
qed

text \<open>
  SerializeJSONObject and SerializeJSONArray lay their parts out the same way: nothing
  between the brackets when there is no part, the parts separated by commas when the
  gap is empty, one part per line at the new indentation otherwise.
\<close>

definition wrap :: "string \<Rightarrow> string \<Rightarrow> string \<Rightarrow> string \<Rightarrow> string \<Rightarrow> string list \<Rightarrow> string" where
  "wrap l r gap stepback ind partial =
     (if partial = [] then l @ r
      else if gap = [] then l @ join '','' partial @ r
      else l @ [CHR 0x0A] @ ind @ join ('','' @ [CHR 0x0A] @ ind) partial
             @ [CHR 0x0A] @ stepback @ r)"

text \<open>
  SerializeJSONProperty reads a property with \<^verbatim>\<open>Get\<close>, own or inherited. Of the
  properties that an object of JSON data inherits from \<^verbatim>\<open>Object.prototype\<close> the methods
  are not printed, and the accessor \<^verbatim>\<open>__proto__\<close> gives \<^verbatim>\<open>Object.prototype\<close> itself,
  which is printed as an object: with a property list \<open>K\<close>, the only property it shows
  is its own \<^verbatim>\<open>__proto__\<close>, which is \<^verbatim>\<open>null\<close>.
\<close>

definition serializeObjectPrototype :: "string list \<Rightarrow> string \<Rightarrow> string \<Rightarrow> string" where
  "serializeObjectPrototype K gap ind =
     wrap ''{'' ''}'' gap ind (ind @ gap)
       (concat (map (\<lambda>P. if P = ''__proto__''
                          then [quoteJSON P @ '':'' @ (if gap = [] then [] else '' '') @ ''null'']
                          else []) K))"

text \<open>
  SerializeJSONProperty with a property list \<open>K\<close> (the replacer is an array): an object
  contributes, for each name of \<open>K\<close> in the order of \<open>K\<close>, the property of that name if
  it has one, and what it inherits under \<^verbatim>\<open>__proto__\<close> if it has none of that name; an
  array contributes every element.
\<close>

function serializeJSON :: "string list \<Rightarrow> string \<Rightarrow> string \<Rightarrow> json \<Rightarrow> string" where
  "serializeJSON K gap ind JNull = ''null''"
| "serializeJSON K gap ind (JBool b) = (if b then ''true'' else ''false'')"
| "serializeJSON K gap ind (JNum n) = showInt n"
| "serializeJSON K gap ind (JStr s) = quoteJSON s"
| "serializeJSON K gap ind (JArr xs) =
     wrap ''['' '']'' gap ind (ind @ gap) (map (serializeJSON K gap (ind @ gap)) xs)"
| "serializeJSON K gap ind (JObj kvs) =
     wrap ''{'' ''}'' gap ind (ind @ gap)
       (concat (map (\<lambda>P. case map_of kvs P of
                            None \<Rightarrow>
                              (if P = ''__proto__''
                               then [quoteJSON P @ '':'' @ (if gap = [] then [] else '' '')
                                       @ serializeObjectPrototype K gap (ind @ gap)]
                               else [])
                          | Some v \<Rightarrow>
                              [quoteJSON P @ '':'' @ (if gap = [] then [] else '' '')
                                 @ serializeJSON K gap (ind @ gap) v]) K))"
  by pat_completeness auto
termination
proof (relation "measure (\<lambda>(K, gap, ind, v). size v)")
  show "wf (measure (\<lambda>(K :: string list, gap :: string, ind :: string, v :: json). size v))"
    by simp
next
  fix K :: "string list" and gap ind :: string and xs :: "json list" and x
  assume "x \<in> set xs"
  then have "size x \<le> size_list size xs" by (simp add: size_list_estimation')
  then show "((K, gap, ind @ gap, x), (K, gap, ind, JArr xs))
               \<in> measure (\<lambda>(K, gap, ind, v). size v)"
    by simp
next
  fix K :: "string list" and gap ind :: string and kvs :: obj and P v
  assume "map_of kvs P = Some v"
  then have "(P, v) \<in> set kvs" by (rule map_of_SomeD)
  then have "size_prod (\<lambda>x. 0) size (P, v) \<le> size_list (size_prod (\<lambda>x. 0) size) kvs"
    by (rule size_list_estimation') simp
  then show "((K, gap, ind @ gap, v), (K, gap, ind, JObj kvs))
               \<in> measure (\<lambda>(K, gap, ind, v). size v)"
    by simp
qed

text \<open>The property list of an array replacer: its strings, each kept at its first place.\<close>

definition propertyList :: "string list \<Rightarrow> string list" where
  "propertyList ks = foldl (\<lambda>acc k. if k \<in> set acc then acc else acc @ [k]) [] ks"

text \<open>The gap of a numeric \<^verbatim>\<open>space\<close>: at most ten blanks; none when it is left out.\<close>

definition gapOf :: "nat option \<Rightarrow> string" where
  "gapOf space = (case space of None \<Rightarrow> [] | Some n \<Rightarrow> replicate (min 10 n) CHR '' '')"

section \<open>util.js\<close>

text \<open>
  \<^verbatim>\<open>orderStringify\<close> runs \<^verbatim>\<open>JSON.stringify\<close> twice. The first run only collects the
  keys the replacer function sees, the root's empty key first. The second run prints the
  value with the sorted keys as the property list. \<^verbatim>\<open>Array.prototype.sort\<close> without a
  comparator orders strings by their code units, which is the lexicographic order of
  \<open>string\<close>.
\<close>

definition orderStringify :: "json \<Rightarrow> nat option \<Rightarrow> string" where
  "orderStringify ob space =
     (let keys = [] # keysOf ob
      in serializeJSON (propertyList (sort keys)) (gapOf space) [] ob)"

text \<open>
  The collaborators of the module that are not part of these sources, as total functions
  by the contracts the specification gives them: the hash of \<^verbatim>\<open>js-sha3\<close>, the codec of
  \<^verbatim>\<open>urlsafe-base64\<close>, the two curves, the address derivation of \<^verbatim>\<open>party.js\<close>, the
  base64 helpers of the library's own \<^verbatim>\<open>util.js\<close> and the two functions of \<^verbatim>\<open>meta.js\<close>.
  \<^verbatim>\<open>encodeBase64\<close> is applied both to buffers and to objects. The last field is not a
  collaborator but a part of the language that is left open: IsLessThan on two values
  of which one is a string, an array or an object, which converts them to strings and
  to floating-point numbers. Its result is \<open>None\<close> when the conversion throws, which
  it does with a TypeError.
\<close>

datatype encodable = Buffer bytes | Value json

record env =
  sha3_256 :: "string \<Rightarrow> bytes"
  urlsafeBase64_encode :: "bytes \<Rightarrow> string"
  encodeBase64 :: "encodable \<Rightarrow> string"
  decodeBase64 :: "string \<Rightarrow> bytes"
  publicKey2Addr :: "bytes \<Rightarrow> string"
  ed25519_sign :: "string \<Rightarrow> bytes \<Rightarrow> bytes"
  ed25519_verify :: "string \<Rightarrow> bytes \<Rightarrow> bytes \<Rightarrow> bool"
  secp256k1_sign :: "string \<Rightarrow> bytes \<Rightarrow> bytes"
  secp256k1_verify :: "string \<Rightarrow> bytes \<Rightarrow> bytes \<Rightarrow> bool"
  secp256k1_compress :: "bytes \<Rightarrow> bytes \<Rightarrow> bytes"
  secp256k1_uncompress :: "bytes \<Rightarrow> bytes \<times> bytes"
  validateMeta :: "meta \<Rightarrow> schema \<Rightarrow> bool"
  calcMetaId :: "meta \<Rightarrow> string"
  lessThan_converted :: "json option \<Rightarrow> json option \<Rightarrow> bool option option"

definition sha3Buffer :: "env \<Rightarrow> string \<Rightarrow> bytes" where
  "sha3Buffer e str = sha3_256 e str"

text \<open>
  \<^verbatim>\<open>urlsafeBase64.encode\<close> returns a string, and \<^verbatim>\<open>toString\<close> of a string ignores its
  arguments: the digest is the whole encoding.
\<close>

definition digestBase64 :: "env \<Rightarrow> string \<Rightarrow> string" where
  "digestBase64 e str = urlsafeBase64_encode e (sha3Buffer e str)"

text \<open>
  \<^verbatim>\<open>objectFromArray\<close>: each step is \<^verbatim>\<open>Object.assign({}, result, {[key]: val})\<close>; the
  literal with the computed key has \<open>val\<close> as an own property, whatever the key is.
\<close>

definition objectFromArray :: "(string \<times> json) list \<Rightarrow> jsobject" where
  "objectFromArray arr =
     foldl (\<lambda>result (key, val). objectAssign (newObject []) [props result, [(key, val)]])
       (newObject []) arr"

text \<open>
  \<^verbatim>\<open>withoutKeys\<close> reads \<^verbatim>\<open>obj[key]\<close> for the keys of \<^verbatim>\<open>Object.keys(obj)\<close>, which are own
  properties, so the read finds their values.
\<close>

definition withoutKeys :: "obj \<Rightarrow> string list \<Rightarrow> jsobject" where
  "withoutKeys ob keys =
     foldl (\<lambda>result key.
              if key \<in> set keys then result
              else (case getprop ob key of
                      None \<Rightarrow> result
                    | Some v \<Rightarrow>
                        objectAssign (newObject [])
                          [props result, props (objectFromArray [(key, v)])]))
       (newObject []) (map fst ob)"

text \<open>
  Modelled from the spec: \<^verbatim>\<open>calcId\<close> of the library's \<^verbatim>\<open>util.js\<close> is missing from
  these sources. The specification has the content identifier computed over the object
  with the identifier's own field excluded, by canonical serialization and digest; the
  serialization, the digest and the removal of keys are the functions above. The object
  that \<^verbatim>\<open>withoutKeys\<close> returns has \<^verbatim>\<open>Object.prototype\<close> as its prototype and is printed as
  the JSON value of its own properties.
\<close>

definition calcId :: "env \<Rightarrow> string \<Rightarrow> obj \<Rightarrow> string" where
  "calcId e key ob =
     digestBase64 e (orderStringify (JObj (props (withoutKeys ob [key]))) None)"

section \<open>JavaScript operators\<close>

text \<open>
  ToBoolean, as \<^verbatim>\<open>if (x)\<close> and \<^verbatim>\<open>x && y\<close> apply it: \<^verbatim>\<open>undefined\<close>, \<^verbatim>\<open>null\<close>,
  \<^verbatim>\<open>false\<close>, \<^verbatim>\<open>0\<close> and the empty string are falsy, every other value is truthy.
\<close>

fun truthy :: "json option \<Rightarrow> bool" where
  "truthy None = False"
| "truthy (Some JNull) = False"
| "truthy (Some (JBool b)) = b"
| "truthy (Some (JNum n)) = (n \<noteq> 0)"
| "truthy (Some (JStr s)) = (s \<noteq> [])"
| "truthy (Some (JArr xs)) = True"
| "truthy (Some (JObj kvs)) = True"

text \<open>
  \<^verbatim>\<open>===\<close>: \<^verbatim>\<open>undefined\<close> equals itself, primitive values are equal when they have the
  same type and value. Arrays and objects are compared by reference; the values compared
  here are read from different JSON documents, or from different properties of one, and
  are not the same object.
\<close>

fun strictEq :: "json option \<Rightarrow> json option \<Rightarrow> bool" where
  "strictEq None None = True"
| "strictEq (Some JNull) (Some JNull) = True"
| "strictEq (Some (JBool a)) (Some (JBool b)) = (a = b)"
| "strictEq (Some (JNum a)) (Some (JNum b)) = (a = b)"
| "strictEq (Some (JStr a)) (Some (JStr b)) = (a = b)"
| "strictEq _ _ = False"

text \<open>
  The values that the relational operators compare as numbers without a conversion from
  text: \<^verbatim>\<open>undefined\<close>, \<^verbatim>\<open>null\<close>, the booleans and the numbers. ToNumber makes
  \<^verbatim>\<open>undefined\<close> NaN (\<open>None\<close>), \<^verbatim>\<open>null\<close> 0 and a boolean 0 or 1.
\<close>

fun numeric :: "json option \<Rightarrow> bool" where
  "numeric None = True"
| "numeric (Some JNull) = True"
| "numeric (Some (JBool b)) = True"
| "numeric (Some (JNum n)) = True"
| "numeric (Some (JStr s)) = False"
| "numeric (Some (JArr xs)) = False"
| "numeric (Some (JObj kvs)) = False"

fun toNumber :: "json option \<Rightarrow> int option" where
  "toNumber (Some JNull) = Some 0"
| "toNumber (Some (JBool b)) = Some (if b then 1 else 0)"
| "toNumber (Some (JNum n)) = Some n"
| "toNumber _ = None"

text \<open>
  IsLessThan, the comparison under the relational operators: true, false, or undefined
  (\<open>None\<close>) when an operand is NaN. Two numeric values are compared here; every other
  pair of operands is left to \<open>lessThan_converted\<close>.
\<close>

definition isLessThan :: "env \<Rightarrow> json option \<Rightarrow> json option \<Rightarrow> bool option outcome" where
  "isLessThan e x y =
     (if numeric x \<and> numeric y then
        Returns (case (toNumber x, toNumber y) of
                   (Some a, Some b) \<Rightarrow> Some (a < b)
                 | _ \<Rightarrow> None)
      else (case lessThan_converted e x y of
              None \<Rightarrow> Throws TypeError
            | Some r \<Rightarrow> Returns r))"

text \<open>
  \<^verbatim>\<open>a < b\<close> is true when IsLessThan of \<open>a\<close> and \<open>b\<close> is true; \<^verbatim>\<open>a > b\<close> is true when
  IsLessThan of \<open>b\<close> and \<open>a\<close> is true; \<^verbatim>\<open>a <= b\<close> is true when IsLessThan of \<open>b\<close> and
  \<open>a\<close> is false, so that a comparison with NaN is false for all three.
\<close>

definition js_lt :: "env \<Rightarrow> json option \<Rightarrow> json option \<Rightarrow> bool outcome" where
  "js_lt e a b =
     (case isLessThan e a b of Throws err \<Rightarrow> Throws err | Returns r \<Rightarrow> Returns (r = Some True))"

definition js_le :: "env \<Rightarrow> json option \<Rightarrow> json option \<Rightarrow> bool outcome" where
  "js_le e a b =
     (case isLessThan e b a of Throws err \<Rightarrow> Throws err | Returns r \<Rightarrow> Returns (r = Some False))"

definition js_gt :: "env \<Rightarrow> json option \<Rightarrow> json option \<Rightarrow> bool outcome" where
  "js_gt e a b =
     (case isLessThan e b a of Throws err \<Rightarrow> Throws err | Returns r \<Rightarrow> Returns (r = Some True))"

text \<open>
  \<^verbatim>\<open>receiver.some(f)\<close>: only an array has the method; on any other truthy value the call
  throws a TypeError.
\<close>

definition arraySome :: "json option \<Rightarrow> (json \<Rightarrow> bool) \<Rightarrow> bool outcome" where
  "arraySome receiver f =
     (case receiver of Some (JArr xs) \<Rightarrow> Returns (list_ex f xs) | _ \<Rightarrow> Throws TypeError)"

text \<open>
  \<^verbatim>\<open>receiver.concat(arg)\<close> on a list of addresses: the elements of the receiver, followed
  by the elements of the argument if that is a list, and by the argument itself as one
  more element if it is \<^verbatim>\<open>undefined\<close>.
\<close>

definition addressList :: "string list \<Rightarrow> json option list" where
  "addressList ids = map (\<lambda>id. Some (JStr id)) ids"

definition arrayConcat :: "string list \<Rightarrow> string list option \<Rightarrow> json option list" where
  "arrayConcat receiver arg =
     addressList receiver @ (case arg of None \<Rightarrow> [None] | Some ids \<Rightarrow> addressList ids)"

text \<open>
  A block of statements each of which may throw: \<open>guard b err\<close> is
  \<^verbatim>\<open>if (b) throw err\<close>, and \<open>firstThrow\<close> runs the statements in order up to the first
  that throws. \<open>guardThrowing\<close> is the same statement for a condition whose evaluation
  may throw itself.
\<close>

definition guard :: "bool \<Rightarrow> failure \<Rightarrow> failure option" where
  "guard b err = (if b then Some err else None)"

definition guardThrowing :: "bool outcome \<Rightarrow> failure \<Rightarrow> failure option" where
  "guardThrowing b err = (case b of Throws thrown \<Rightarrow> Some thrown | Returns c \<Rightarrow> guard c err)"

fun firstThrow :: "failure option list \<Rightarrow> failure option" where
  "firstThrow [] = None"
| "firstThrow (None # stmts) = firstThrow stmts"
| "firstThrow (Some err # stmts) = Some err"

section \<open>Schema validation\<close>

text \<open>
  The types of JSON Schema, a pattern on a string, and the items of an array being
  pairwise different under deep equality, which is \<open>same_mapping\<close>.
\<close>

definition hasType :: "json \<Rightarrow> jtype \<Rightarrow> bool" where
  "hasType v t =
     (case t of
        TObject \<Rightarrow> (case v of JObj kvs \<Rightarrow> True | _ \<Rightarrow> False)
      | TString \<Rightarrow> (case v of JStr s \<Rightarrow> True | _ \<Rightarrow> False)
      | TInteger \<Rightarrow> (case v of JNum n \<Rightarrow> True | _ \<Rightarrow> False)
      | TArray \<Rightarrow> (case v of JArr xs \<Rightarrow> True | _ \<Rightarrow> False))"

fun matches :: "pattern \<Rightarrow> string \<Rightarrow> bool" where
  "matches (ClassRepeat cs n) s = (length s = n \<and> list_all (\<lambda>c. c \<in> set cs) s)"

fun uniqueItems :: "json list \<Rightarrow> bool" where
  "uniqueItems [] = True"
| "uniqueItems (x # xs) = (\<not> list_ex (same_mapping x) xs \<and> uniqueItems xs)"

text \<open>
  Modelled from the spec: \<^verbatim>\<open>validateSchema\<close> of the library's \<^verbatim>\<open>schema.js\<close> is missing
  from these sources. The specification has it validate a value against a declarative
  shape of type, enum, required fields, pattern-matched strings and oneOf/allOf
  composition; the keywords mean what JSON Schema says. A keyword for objects, arrays or
  strings accepts every value of another kind; \<^verbatim>\<open>enum\<close> and \<^verbatim>\<open>uniqueItems\<close> compare by
  deep equality, which is \<open>same_mapping\<close>.
\<close>

fun validateSchema :: "json \<Rightarrow> schema \<Rightarrow> bool"
and validateKeyword :: "json \<Rightarrow> keyword \<Rightarrow> bool" where
  "validateSchema v (Schema ks) = list_all (validateKeyword v) ks"
| "validateKeyword v SchemaDraft = True"
| "validateKeyword v (Title t) = True"
| "validateKeyword v (Readonly b) = True"
| "validateKeyword v (Type t) = hasType v t"
| "validateKeyword v (Enum vs) = list_ex (same_mapping v) vs"
| "validateKeyword v (Pattern p) = (case v of JStr s \<Rightarrow> matches p s | _ \<Rightarrow> True)"
| "validateKeyword v (Required ks) =
     (case v of JObj ob \<Rightarrow> list_all (\<lambda>k. getprop ob k \<noteq> None) ks | _ \<Rightarrow> True)"
| "validateKeyword v (Properties ps) =
     (case v of
        JObj ob \<Rightarrow>
          list_all (\<lambda>(k, s). case getprop ob k of None \<Rightarrow> True | Some w \<Rightarrow> validateSchema w s) ps
      | _ \<Rightarrow> True)"
| "validateKeyword v (Items s) =
     (case v of JArr xs \<Rightarrow> list_all (\<lambda>x. validateSchema x s) xs | _ \<Rightarrow> True)"
| "validateKeyword v (MinItems n) = (case v of JArr xs \<Rightarrow> n \<le> length xs | _ \<Rightarrow> True)"
| "validateKeyword v (UniqueItems b) =
     (case v of JArr xs \<Rightarrow> b \<longrightarrow> uniqueItems xs | _ \<Rightarrow> True)"
| "validateKeyword v (AllOf ss) = list_all (validateSchema v) ss"
| "validateKeyword v (OneOf ss) = (length (filter (validateSchema v) ss) = 1)"

section \<open>jwt.js\<close>

subsection \<open>Identifiers and time stamps\<close>

definition calcClaimsId :: "env \<Rightarrow> obj \<Rightarrow> string" where
  "calcClaimsId e claims = calcId e ''jti'' claims"

text \<open>
  \<^verbatim>\<open>Object.assign({}, claims, { 'jti': calcClaimsId(claims) })\<close>: the arguments are
  evaluated from left to right, so the target is allocated first.
\<close>

definition setClaimsId :: "env \<Rightarrow> store \<Rightarrow> ref \<Rightarrow> store \<times> ref" where
  "setClaimsId e h claims =
     (let (h1, target) = alloc h [];
          (h2, source) = alloc h1 [(''jti'', JStr (calcClaimsId e (props (h1 ! claims))))]
      in Object_assign h2 target [claims, source])"

text \<open>
  \<^verbatim>\<open>now\<close> reads the clock. Each call of it in the source is an argument here: the
  time the call returned, in seconds.
\<close>

definition timestamp :: "int \<Rightarrow> store \<Rightarrow> ref \<Rightarrow> store \<times> ref" where
  "timestamp now h claims =
     (let (h1, target) = alloc h [];
          (h2, source) = alloc h1 [(''iat'', JNum now)]
      in Object_assign h2 target [claims, source])"

subsection \<open>The schemas\<close>

definition base64url :: "char list" where
  "base64url = ''ABCDEFGHIJKLMNOPQRSTUVWXYZabcdefghijklmnopqrstuvwxyz0123456789-_''"

definition PublicKey :: schema where
  "PublicKey = Schema
     [SchemaDraft,
      Type TObject,
      Title ''PublicKey'',
      AllOf
        [Schema
           [Properties
              [(''x'', Schema [Type TString, Pattern (ClassRepeat base64url 43)])]],
         Schema
           [OneOf
              [Schema
                 [Properties
                    [(''crv'', Schema [Enum [JStr ''Ed25519'']]),
                     (''kty'', Schema [Enum [JStr ''OKP'']])]],
               Schema
                 [Properties
                    [(''crv'', Schema [Enum [JStr ''P-256'']]),
                     (''kty'', Schema [Enum [JStr ''EC'']]),
                     (''y'', Schema [Type TString, Pattern (ClassRepeat base64url 43)])],
                  Required [''y'']]]]],
      Required [''crv'', ''kty'', ''x'']]"

definition Header :: schema where
  "Header = Schema
     [SchemaDraft,
      Type TObject,
      Title ''Header'',
      Properties
        [(''alg'', Schema [Enum [JStr ''EdDsa'', JStr ''ES256'']]),
         (''jwk'', PublicKey),
         (''typ'', Schema [Enum [JStr ''JWT'']])],
      OneOf
        [Schema
           [Properties
              [(''alg'', Schema [Enum [JStr ''EdDsa'']]),
               (''jwk'', Schema [Properties [(''crv'', Schema [Enum [JStr ''Ed25519'']])]])]],
         Schema
           [Properties
              [(''alg'', Schema [Enum [JStr ''ES256'']]),
               (''jwk'', Schema [Properties [(''crv'', Schema [Enum [JStr ''P-256'']])]])]]],
      Required [''alg'', ''jwk'', ''typ'']]"

definition intDate :: schema where
  "intDate = Schema [Type TInteger]"

text \<open>\<^verbatim>\<open>Object.assign({}, schema, { readonly: true })\<close>.\<close>

fun readonly :: "schema \<Rightarrow> schema" where
  "readonly (Schema ks) = Schema (ks @ [Readonly True])"

definition iat :: schema where
  "iat = readonly intDate"

text \<open>
  \<^verbatim>\<open>MetaId\<close> and \<^verbatim>\<open>Addr\<close> are schemas of \<^verbatim>\<open>meta.js\<close> and \<^verbatim>\<open>party.js\<close>, which are not
  part of these sources: the schemas built from them take them as arguments.
\<close>

definition jti :: "schema \<Rightarrow> schema" where
  "jti MetaId = readonly MetaId"

definition Create :: "schema \<Rightarrow> schema \<Rightarrow> schema" where
  "Create Addr MetaId = Schema
     [SchemaDraft,
      Type TObject,
      Title ''Create'',
      Properties
        [(''iat'', iat),
         (''iss'', Addr),
         (''jti'', jti MetaId),
         (''sub'', MetaId),
         (''typ'', Schema [Enum [JStr ''Create''], Readonly True])],
      Required [''iat'', ''iss'', ''jti'', ''sub'', ''typ'']]"

definition License :: "schema \<Rightarrow> schema \<Rightarrow> schema" where
  "License Addr MetaId = Schema
     [SchemaDraft,
      Type TObject,
      Title ''License'',
      Properties
        [(''aud'', Schema [Type TArray, Items Addr, MinItems 1, UniqueItems True]),
         (''exp'', intDate),
         (''iat'', iat),
         (''iss'', Addr),
         (''jti'', jti MetaId),
         (''nbf'', intDate),
         (''sub'', MetaId),
         (''typ'', Schema [Enum [JStr ''License''], Readonly True])],
      Required [''aud'', ''exp'', ''iat'', ''iss'', ''jti'', ''sub'', ''typ'']]"

subsection \<open>Headers\<close>

text \<open>
  The body of the \<^verbatim>\<open>try\<close> block of each builder, and the builder: the \<^verbatim>\<open>catch\<close> block
  prints the error and the function returns \<^verbatim>\<open>header\<close>, which is still the empty
  object it was initialised with.
\<close>

definition ed25519Header_try :: "env \<Rightarrow> bytes \<Rightarrow> obj outcome" where
  "ed25519Header_try e publicKey =
     (if length publicKey \<noteq> 32 then Throws (KeyLength 32 (length publicKey))
      else Returns
        [(''alg'', JStr ''EdDsa''),
         (''jwk'', JObj
            [(''x'', JStr (encodeBase64 e (Buffer publicKey))),
             (''crv'', JStr ''Ed25519''),
             (''kty'', JStr ''OKP'')]),
         (''typ'', JStr ''JWT'')])"

definition ed25519Header :: "env \<Rightarrow> bytes \<Rightarrow> obj outcome \<times> console" where
  "ed25519Header e publicKey =
     (case ed25519Header_try e publicKey of
        Throws err \<Rightarrow> (Returns [], [err])
      | Returns header \<Rightarrow> (Returns header, []))"

definition secp256k1Header_try :: "env \<Rightarrow> bytes \<Rightarrow> obj outcome" where
  "secp256k1Header_try e publicKey =
     (if length publicKey \<noteq> 33 then Throws (KeyLength 33 (length publicKey))
      else
        (let coords = secp256k1_uncompress e publicKey
         in Returns
           [(''alg'', JStr ''ES256''),
            (''jwk'', JObj
               [(''x'', JStr (encodeBase64 e (Buffer (fst coords)))),
                (''y'', JStr (encodeBase64 e (Buffer (snd coords)))),
                (''crv'', JStr ''P-256''),
                (''kty'', JStr ''EC'')]),
            (''typ'', JStr ''JWT'')]))"

definition secp256k1Header :: "env \<Rightarrow> bytes \<Rightarrow> obj outcome \<times> console" where
  "secp256k1Header e publicKey =
     (case secp256k1Header_try e publicKey of
        Throws err \<Rightarrow> (Returns [], [err])
      | Returns header \<Rightarrow> (Returns header, []))"

subsection \<open>Signing\<close>

definition signClaims :: "env \<Rightarrow> obj \<Rightarrow> obj \<Rightarrow> bytes \<Rightarrow> bytes" where
  "signClaims e claims header secretKey =
     (let sig0 = [];
          encodedHeader = encodeBase64 e (Value (JObj header));
          encodedPayload = encodeBase64 e (Value (JObj claims));
          sig1 = (if strictEq (getprop header ''alg'') (Some (JStr ''EdDsa''))
                  then ed25519_sign e (encodedHeader @ ''.'' @ encodedPayload) secretKey
                  else sig0);
          sig2 = (if strictEq (getprop header ''alg'') (Some (JStr ''ES256''))
                  then secp256k1_sign e (encodedHeader @ ''.'' @ encodedPayload) secretKey
                  else sig1)
      in sig2)"

subsection \<open>Validation\<close>

text \<open>
  The statements of \<^verbatim>\<open>validateClaims\<close> that follow the test of \<^verbatim>\<open>validateMeta\<close>, in
  the order of the source. \<open>now1\<close> is the time read for the check of \<^verbatim>\<open>iat\<close>, \<open>now2\<close>
  is \<^verbatim>\<open>rightNow\<close>. In the last statement a role-address list that is absent is
  \<^verbatim>\<open>undefined\<close>: calling \<^verbatim>\<open>some\<close> or \<^verbatim>\<open>concat\<close> on it throws a TypeError, and as the
  argument of \<^verbatim>\<open>concat\<close> it becomes an element of the array that is searched.
\<close>

definition validateClaims_checks ::
  "env \<Rightarrow> int \<Rightarrow> int \<Rightarrow> obj \<Rightarrow> meta \<Rightarrow> schema \<Rightarrow> failure option list" where
  "validateClaims_checks e now1 now2 claims meta schemaClaims =
     [guard (\<not> validateSchema (JObj claims) schemaClaims) ClaimsInvalidSchema,
      guard (\<not> (strictEq (Some (JStr ''Create'')) (getprop claims ''typ'') \<or>
                strictEq (Some (JStr ''License'')) (getprop claims ''typ'')))
        UnexpectedTyp,
      guardThrowing (js_gt e (getprop claims ''iat'') (Some (JNum now1))) IatLaterThanNow,
      (if truthy (getprop claims ''aud'') then
         (case arraySome (getprop claims ''aud'')
                 (\<lambda>aud. strictEq (Some aud) (getprop claims ''iss'')) of
            Throws err \<Rightarrow> Some err
          | Returns found \<Rightarrow> guard found AudContainsIss)
       else None),
      (if truthy (getprop claims ''exp'') then
         firstThrow
           [guardThrowing (js_le e (getprop claims ''exp'') (getprop claims ''iat''))
              ExpNotAfterIat,
            guardThrowing
              (if truthy (getprop claims ''nbf'')
               then js_le e (getprop claims ''exp'') (getprop claims ''nbf'')
               else Returns False)
              ExpNotAfterNbf,
            guardThrowing (js_lt e (getprop claims ''exp'') (Some (JNum now2))) ClaimsExpired]
       else None),
      (if truthy (getprop claims ''nbf'') then
         firstThrow
           [guardThrowing (js_le e (getprop claims ''nbf'') (getprop claims ''iat''))
              NbfNotAfterIat,
            guardThrowing (js_gt e (getprop claims ''nbf'') (Some (JNum now2)))
              ClaimsNotYetValid]
       else None),
      guard (\<not> strictEq (getprop claims ''jti'') (Some (JStr (calcClaimsId e claims))))
        JtiMismatch,
      guard (\<not> strictEq (getprop claims ''sub'') (Some (JStr (calcMetaId e meta))))
        SubMismatch,
      (if mtype meta = ''Album'' then
         (case artist meta of
            None \<Rightarrow> Some TypeError
          | Some ids \<Rightarrow>
              guard (\<not> list_ex (\<lambda>id. strictEq (getprop claims ''iss'') id) (addressList ids))
                IssNotArtist)
       else if mtype meta = ''Composition'' then
         (case composer meta of
            None \<Rightarrow> Some TypeError
          | Some ids \<Rightarrow>
              guard (\<not> list_ex (\<lambda>id. strictEq (getprop claims ''iss'') id)
                         (arrayConcat ids (lyricist meta)))
                IssNotComposerOrLyricist)
       else if mtype meta = ''Recording'' then
         (case performer meta of
            None \<Rightarrow> Some TypeError
          | Some ids \<Rightarrow>
              guard (\<not> list_ex (\<lambda>id. strictEq (getprop claims ''iss'') id)
                         (arrayConcat ids (producer meta)))
                IssNotPerformerOrProducer)
       else Some UnexpectedMetaType)]"

text \<open>
  The \<^verbatim>\<open>try\<close> block of \<^verbatim>\<open>validateClaims\<close>. It ends with \<^verbatim>\<open>valid\<close> set to true, with
  \<^verbatim>\<open>valid\<close> still false when \<^verbatim>\<open>validateMeta\<close> rejects the document, or with an error.
\<close>

definition validateClaims_try ::
  "env \<Rightarrow> int \<Rightarrow> int \<Rightarrow> obj \<Rightarrow> meta \<Rightarrow> schema \<Rightarrow> schema \<Rightarrow> bool outcome" where
  "validateClaims_try e now1 now2 claims meta schemaClaims schemaMeta =
     (if validateMeta e meta schemaMeta then
        (case firstThrow (validateClaims_checks e now1 now2 claims meta schemaClaims) of
           Some err \<Rightarrow> Throws err
         | None \<Rightarrow> Returns True)
      else Returns False)"

definition validateClaims ::
  "env \<Rightarrow> int \<Rightarrow> int \<Rightarrow> obj \<Rightarrow> meta \<Rightarrow> schema \<Rightarrow> schema \<Rightarrow> bool outcome \<times> console" where
  "validateClaims e now1 now2 claims meta schemaClaims schemaMeta =
     (case validateClaims_try e now1 now2 claims meta schemaClaims schemaMeta of
        Throws err \<Rightarrow> (Returns False, [err])
      | Returns valid \<Rightarrow> (Returns valid, []))"

subsection \<open>Verification\<close>

text \<open>
  \<^verbatim>\<open>header.jwk[key]\<close> as a string. \<^verbatim>\<open>verifyClaims\<close> reads it after the header has
  passed its schema, which makes \<^verbatim>\<open>jwk\<close> an object and \<^verbatim>\<open>x\<close> and \<^verbatim>\<open>y\<close> strings.
\<close>

definition jwkString :: "obj \<Rightarrow> string \<Rightarrow> string option" where
  "jwkString header key =
     (case getprop header ''jwk'' of
        Some (JObj jwk) \<Rightarrow> (case getprop jwk key of Some (JStr s) \<Rightarrow> Some s | _ \<Rightarrow> None)
      | _ \<Rightarrow> None)"

text \<open>
  The two blocks of \<^verbatim>\<open>verifyClaims\<close> that follow a successful validation: the one for
  \<^verbatim>\<open>EdDsa\<close>, then the one for \<^verbatim>\<open>ES256\<close>.
\<close>

definition verifyClaims_checks :: "env \<Rightarrow> obj \<Rightarrow> obj \<Rightarrow> bytes \<Rightarrow> failure option list" where
  "verifyClaims_checks e claims header signature =
     (let encodedHeader = encodeBase64 e (Value (JObj header));
          encodedPayload = encodeBase64 e (Value (JObj claims))
      in [(if strictEq (getprop header ''alg'') (Some (JStr ''EdDsa'')) then
             (case jwkString header ''x'' of
                Some x \<Rightarrow>
                  (let publicKey = decodeBase64 e x
                   in firstThrow
                        [guard (\<not> strictEq (getprop claims ''iss'')
                                    (Some (JStr (publicKey2Addr e publicKey))))
                           PublicKeyAddrMismatch,
                         guard (\<not> ed25519_verify e
                                    (encodedHeader @ ''.'' @ encodedPayload)
                                    publicKey signature)
                           InvalidEd25519Signature])
              | None \<Rightarrow> Some TypeError)
           else None),
          (if strictEq (getprop header ''alg'') (Some (JStr ''ES256'')) then
             (case (jwkString header ''x'', jwkString header ''y'') of
                (Some x, Some y) \<Rightarrow>
                  (let publicKey =
                         secp256k1_compress e (decodeBase64 e x) (decodeBase64 e y)
                   in firstThrow
                        [guard (\<not> strictEq (getprop claims ''iss'')
                                    (Some (JStr (publicKey2Addr e publicKey))))
                           PublicKeyAddrMismatch,
                         guard (\<not> secp256k1_verify e
                                    (encodedHeader @ ''.'' @ encodedPayload)
                                    publicKey signature)
                           InvalidSecp256k1Signature])
              | _ \<Rightarrow> Some TypeError)
           else None)])"

text \<open>
  The \<^verbatim>\<open>try\<close> block of \<^verbatim>\<open>verifyClaims\<close>, with what \<^verbatim>\<open>validateClaims\<close> printed.
\<close>

definition verifyClaims_try ::
  "env \<Rightarrow> int \<Rightarrow> int \<Rightarrow> obj \<Rightarrow> obj \<Rightarrow> meta \<Rightarrow> schema \<Rightarrow> schema \<Rightarrow> bytes
     \<Rightarrow> bool outcome \<times> console" where
  "verifyClaims_try e now1 now2 claims header meta schemaClaims schemaMeta signature =
     (if \<not> validateSchema (JObj header) Header then (Throws HeaderInvalidSchema, [])
      else
        (case validateClaims e now1 now2 claims meta schemaClaims schemaMeta of
           (Returns True, log) \<Rightarrow>
             (case firstThrow (verifyClaims_checks e claims header signature) of
                Some err \<Rightarrow> (Throws err, log)
              | None \<Rightarrow> (Returns True, log))
         | (_, log) \<Rightarrow> (Returns False, log)))"

definition verifyClaims ::
  "env \<Rightarrow> int \<Rightarrow> int \<Rightarrow> obj \<Rightarrow> obj \<Rightarrow> meta \<Rightarrow> schema \<Rightarrow> schema \<Rightarrow> bytes
     \<Rightarrow> bool outcome \<times> console" where
  "verifyClaims e now1 now2 claims header meta schemaClaims schemaMeta signature =
     (case verifyClaims_try e now1 now2 claims header meta schemaClaims schemaMeta signature of
        (Throws err, log) \<Rightarrow> (Returns False, log @ [err])
      | (Returns verified, log) \<Rightarrow> (Returns verified, log))"

section \<open>The specification's notions\<close>

text \<open>
  The role-address set that the \<^verbatim>\<open>@type\<close> of a metadata document selects: the artists
  of an album, the composers and lyricists of a composition, the performers and
  producers of a recording; no address for another type. A list that the document does
  not have gives no address.
\<close>

definition addresses :: "string list option \<Rightarrow> string set" where
  "addresses ids = (case ids of None \<Rightarrow> {} | Some xs \<Rightarrow> set xs)"

definition roleAddresses :: "meta \<Rightarrow> string set" where
  "roleAddresses m =
     (if mtype m = ''Album'' then addresses (artist m)
      else if mtype m = ''Composition'' then addresses (composer m) \<union> addresses (lyricist m)
      else if mtype m = ''Recording'' then addresses (performer m) \<union> addresses (producer m)
      else {})"

text \<open>
  A metadata document of the data model has the role-address lists of its type. Of a
  composition and of a recording, the list of lyricists and the list of producers may
  be missing here; the list named first may not.
\<close>

definition hasRoleLists :: "meta \<Rightarrow> bool" where
  "hasRoleLists m =
     (if mtype m = ''Album'' then artist m \<noteq> None
      else if mtype m = ''Composition'' then composer m \<noteq> None
      else if mtype m = ''Recording'' then performer m \<noteq> None
      else True)"

text \<open>
  The public key that a header carries, by the curve its \<^verbatim>\<open>alg\<close> selects, the
  signature check of that curve, and the text that is signed.
\<close>

definition headerPublicKey :: "env \<Rightarrow> obj \<Rightarrow> bytes option" where
  "headerPublicKey e header =
     (if getprop header ''alg'' = Some (JStr ''EdDsa'') then
        (case jwkString header ''x'' of
           Some x \<Rightarrow> Some (decodeBase64 e x)
         | None \<Rightarrow> None)
      else if getprop header ''alg'' = Some (JStr ''ES256'') then
        (case (jwkString header ''x'', jwkString header ''y'') of
           (Some x, Some y) \<Rightarrow> Some (secp256k1_compress e (decodeBase64 e x) (decodeBase64 e y))
         | _ \<Rightarrow> None)
      else None)"

definition curveVerify :: "env \<Rightarrow> obj \<Rightarrow> string \<Rightarrow> bytes \<Rightarrow> bytes \<Rightarrow> bool" where
  "curveVerify e header msg publicKey signature =
     (if getprop header ''alg'' = Some (JStr ''EdDsa'')
        then ed25519_verify e msg publicKey signature
      else if getprop header ''alg'' = Some (JStr ''ES256'')
        then secp256k1_verify e msg publicKey signature
      else False)"

definition signingInput :: "env \<Rightarrow> obj \<Rightarrow> obj \<Rightarrow> string" where
  "signingInput e header claims =
     encodeBase64 e (Value (JObj header)) @ ''.'' @ encodeBase64 e (Value (JObj claims))"

text \<open>
  The invariants of the data model for a claims object at time \<open>now\<close>, for the
  metadata document it refers to, which has its role-address lists, and the public key
  of its signer. Both variants:
  \<^verbatim>\<open>iat\<close> is not later than now, \<^verbatim>\<open>iss\<close> is the address of the key and is in the
  role-address set of the document, \<^verbatim>\<open>jti\<close> is the identifier of the claims, \<^verbatim>\<open>sub\<close>
  is the identifier of the document. A Create has no other field. A License has a
  non-empty audience of distinct addresses without the issuer, an \<^verbatim>\<open>exp\<close> later than
  \<^verbatim>\<open>iat\<close> and not before now, and if it has an \<^verbatim>\<open>nbf\<close>, that lies after \<^verbatim>\<open>iat\<close>, before
  \<^verbatim>\<open>exp\<close> and not after now.
\<close>

fun asNum :: "json option \<Rightarrow> int option" where
  "asNum (Some (JNum n)) = Some n"
| "asNum _ = None"

fun asArr :: "json option \<Rightarrow> json list option" where
  "asArr (Some (JArr xs)) = Some xs"
| "asArr _ = None"

definition valid_claims :: "env \<Rightarrow> int \<Rightarrow> obj \<Rightarrow> meta \<Rightarrow> bytes \<Rightarrow> bool" where
  "valid_claims e now claims m publicKey =
     (case asNum (getprop claims ''iat'') of
        None \<Rightarrow> False
      | Some t \<Rightarrow>
          t \<le> now
          \<and> getprop claims ''iss'' = Some (JStr (publicKey2Addr e publicKey))
          \<and> hasRoleLists m
          \<and> publicKey2Addr e publicKey \<in> roleAddresses m
          \<and> getprop claims ''jti'' = Some (JStr (calcClaimsId e claims))
          \<and> getprop claims ''sub'' = Some (JStr (calcMetaId e m))
          \<and> (if getprop claims ''typ'' = Some (JStr ''Create'') then
                getprop claims ''aud'' = None \<and> getprop claims ''exp'' = None
                \<and> getprop claims ''nbf'' = None
              else
                getprop claims ''typ'' = Some (JStr ''License'')
                \<and> (case (asArr (getprop claims ''aud''), asNum (getprop claims ''exp'')) of
                     (Some auds, Some x) \<Rightarrow>
                       auds \<noteq> [] \<and> uniqueItems auds
                       \<and> JStr (publicKey2Addr e publicKey) \<notin> set auds
                       \<and> t < x \<and> now \<le> x
                       \<and> (case getprop claims ''nbf'' of
                            None \<Rightarrow> True
                          | Some v \<Rightarrow>
                              (case asNum (Some v) of
                                 Some n \<Rightarrow> n < x \<and> t < n \<and> n \<le> now
                               | None \<Rightarrow> False))
                   | _ \<Rightarrow> False)))"

text \<open>
  The contracts of the collaborators for a key pair and a message. The codec turns a
  buffer of 32 bytes into 43 characters of the base64url alphabet and back; the
  signature of the message made with the secret key verifies under the public key;
  compressing the coordinates of an uncompressed key gives the key back.
\<close>

definition codec_roundtrip :: "env \<Rightarrow> bytes \<Rightarrow> bool" where
  "codec_roundtrip e buf \<longleftrightarrow>
     matches (ClassRepeat base64url 43) (encodeBase64 e (Buffer buf))
     \<and> decodeBase64 e (encodeBase64 e (Buffer buf)) = buf"

definition ed25519_keypair :: "env \<Rightarrow> bytes \<Rightarrow> bytes \<Rightarrow> string \<Rightarrow> bool" where
  "ed25519_keypair e publicKey secretKey msg \<longleftrightarrow>
     length publicKey = 32 \<and> codec_roundtrip e publicKey
     \<and> ed25519_verify e msg publicKey (ed25519_sign e msg secretKey)"

definition secp256k1_keypair :: "env \<Rightarrow> bytes \<Rightarrow> bytes \<Rightarrow> string \<Rightarrow> bool" where
  "secp256k1_keypair e publicKey secretKey msg \<longleftrightarrow>
     length publicKey = 33
     \<and> codec_roundtrip e (fst (secp256k1_uncompress e publicKey))
     \<and> codec_roundtrip e (snd (secp256k1_uncompress e publicKey))
     \<and> secp256k1_compress e (fst (secp256k1_uncompress e publicKey))
          (snd (secp256k1_uncompress e publicKey)) = publicKey
     \<and> secp256k1_verify e msg publicKey (secp256k1_sign e msg secretKey)"

section \<open>A small instance\<close>

text \<open>
  Toy collaborators on which the definitions can be run: the hash keeps the length of
  its input, a buffer is encoded byte by byte as \<open>A\<close> or \<open>B\<close> and padded to 43
  characters, an object is encoded as its canonical JSON, a signature is the key followed
  by one byte for each character of the message, and the secret key is the public key.
  A comparison that needs a conversion throws.
\<close>

definition sample_env :: env where
  "sample_env =
     \<lparr>sha3_256 = (\<lambda>str. replicate (length str) 0),
      urlsafeBase64_encode = (\<lambda>buf. showNat (length buf)),
      encodeBase64 = (\<lambda>x. case x of
          Buffer buf \<Rightarrow> map (\<lambda>w. if w = 0 then CHR ''A'' else CHR ''B'') buf
                          @ replicate (43 - length buf) CHR ''A''
        | Value v \<Rightarrow> orderStringify v None),
      decodeBase64 = (\<lambda>str. map (\<lambda>c. if c = CHR ''A'' then 0 else 1) (take 32 str)),
      publicKey2Addr = (\<lambda>key. map (\<lambda>w. if w = 0 then CHR ''0'' else CHR ''1'') (take 4 key)),
      ed25519_sign = (\<lambda>msg key. key @ replicate (length msg) 0),
      ed25519_verify = (\<lambda>msg key sig. sig = key @ replicate (length msg) 0),
      secp256k1_sign = (\<lambda>msg key. key @ replicate (length msg) 1),
      secp256k1_verify = (\<lambda>msg key sig. sig = key @ replicate (length msg) 1),
      secp256k1_compress = (\<lambda>x y. 2 # x),
      secp256k1_uncompress = (\<lambda>key. (tl key, replicate 32 0)),
      validateMeta = (\<lambda>m s. validateSchema (JObj [(''@type'', JStr (mtype m))]) s),
      calcMetaId = (\<lambda>m. ''meta-'' @ mtype m),
      lessThan_converted = (\<lambda>x y. None)\<rparr>"

definition sample_key :: bytes where
  "sample_key = replicate 32 1"

definition sample_meta :: meta where
  "sample_meta =
     \<lparr>mtype = ''Composition'', artist = None, composer = Some [''1111''],
      lyricist = Some [], performer = None, producer = None, other_props = []\<rparr>"

definition sample_schemaMeta :: schema where
  "sample_schemaMeta = Schema [Properties [(''@type'', Schema [Enum [JStr ''Composition'']])]]"

definition StringSchema :: schema where
  "StringSchema = Schema [Type TString]"

text \<open>
  A Create claims object of the composer for the sample composition, issued at time 100.
  The canonical JSON of its other fields is 64 characters long, so its \<^verbatim>\<open>jti\<close> under
  the toy digest is \<open>''64''\<close>.
\<close>

definition sample_create :: obj where
  "sample_create =
     [(''iat'', JNum 100), (''iss'', JStr ''1111''), (''sub'', JStr ''meta-Composition''),
      (''typ'', JStr ''Create''), (''jti'', JStr ''64'')]"

text \<open>
  Two License claims objects of the same composer, issued at time 50 to the address
  \<open>''0000''\<close>: one that expires at time 100, one whose \<^verbatim>\<open>exp\<close> is 0.
\<close>

definition sample_license :: obj where
  "sample_license =
     [(''aud'', JArr [JStr ''0000'']), (''exp'', JNum 100), (''iat'', JNum 50),
      (''iss'', JStr ''1111''), (''sub'', JStr ''meta-Composition''),
      (''typ'', JStr ''License''), (''jti'', JStr ''89'')]"

definition sample_epoch_license :: obj where
  "sample_epoch_license =
     [(''aud'', JArr [JStr ''0000'']), (''exp'', JNum 0), (''iat'', JNum 50),
      (''iss'', JStr ''1111''), (''sub'', JStr ''meta-Composition''),
      (''typ'', JStr ''License''), (''jti'', JStr ''87'')]"

text \<open>
  A License of the same composer with \<^verbatim>\<open>nbf\<close> 0, issued at time 50, that expires at
  time 200.
\<close>

definition sample_nbf_license :: obj where
  "sample_nbf_license =
     [(''aud'', JArr [JStr ''0000'']), (''exp'', JNum 200), (''iat'', JNum 50),
      (''iss'', JStr ''1111''), (''nbf'', JNum 0), (''sub'', JStr ''meta-Composition''),
      (''typ'', JStr ''License''), (''jti'', JStr ''97'')]"





text \<open>
  The headers that the builders return for the sample Ed25519 key and for a compressed
  secp256k1 key with the same address.
\<close>

definition sample_header :: obj where
  "sample_header =
     [(''alg'', JStr ''EdDsa''),
      (''jwk'', JObj
         [(''x'', JStr ''BBBBBBBBBBBBBBBBBBBBBBBBBBBBBBBBAAAAAAAAAAA''),
          (''crv'', JStr ''Ed25519''),
          (''kty'', JStr ''OKP'')]),
      (''typ'', JStr ''JWT'')]"

text \<open>
  Another Ed25519 key, whose address is \<open>''0000''\<close>, and the header built for it.
\<close>

definition sample_other_key :: bytes where
  "sample_other_key = replicate 32 0"

definition sample_other_header :: obj where
  "sample_other_header =
     [(''alg'', JStr ''EdDsa''),
      (''jwk'', JObj
         [(''x'', JStr ''AAAAAAAAAAAAAAAAAAAAAAAAAAAAAAAAAAAAAAAAAAA''),
          (''crv'', JStr ''Ed25519''),
          (''kty'', JStr ''OKP'')]),
      (''typ'', JStr ''JWT'')]"

definition sample_secp_key :: bytes where
  "sample_secp_key = 2 # replicate 32 1"

definition sample_secp_header :: obj where
  "sample_secp_header =
     [(''alg'', JStr ''ES256''),
      (''jwk'', JObj
         [(''x'', JStr ''BBBBBBBBBBBBBBBBBBBBBBBBBBBBBBBBAAAAAAAAAAA''),
          (''y'', JStr ''AAAAAAAAAAAAAAAAAAAAAAAAAAAAAAAAAAAAAAAAAAA''),
          (''crv'', JStr ''P-256''),
          (''kty'', JStr ''EC'')]),
      (''typ'', JStr ''JWT'')]"

section \<open>Canonical serialization\<close>

lemma sort_mset_cong: "mset xs = mset ys \<Longrightarrow> sort xs = sort (ys :: 'a::linorder list)"
  by (rule properties_for_sort) simp_all

lemma same_mapping_keys:
  assumes "distinct (map fst xs)" "distinct (map fst ys)" "same_mapping (JObj xs) (JObj ys)"
  shows "fst ` set xs = fst ` set ys"
proof -
  have sub: "fst ` set xs \<subseteq> fst ` set ys"
  proof
    fix k assume "k \<in> fst ` set xs"
    then obtain v where "(k, v) \<in> set xs" by auto
    with assms(3) have "map_of ys k \<noteq> None" by (auto split: option.splits)
    then show "k \<in> fst ` set ys" by (simp add: map_of_eq_None_iff)
  qed
  have "card (fst ` set xs) = length xs"
    using assms(1) distinct_card[of "map fst xs"] by simp
  moreover have "card (fst ` set ys) = length ys"
    using assms(2) distinct_card[of "map fst ys"] by simp
  moreover have "length xs = length ys" using assms(3) by simp
  ultimately have "card (fst ` set xs) = card (fst ` set ys)" by simp
  with sub show ?thesis by (simp add: card_subset_eq)
qed

lemma same_mapping_lookup:
  assumes "distinct (map fst xs)" "same_mapping (JObj xs) (JObj ys)" "map_of xs k = Some v"
  shows "\<exists>w. map_of ys k = Some w \<and> same_mapping v w"
proof -
  from assms(3) have "(k, v) \<in> set xs" by (rule map_of_SomeD)
  with assms(2) show ?thesis by (auto split: option.splits)
qed

text \<open>With a fixed property list, the printed text does not depend on insertion order.\<close>

lemma serializeJSON_same_mapping:
  "wf_json a \<Longrightarrow> wf_json b \<Longrightarrow> same_mapping a b \<Longrightarrow>
   serializeJSON K gap ind a = serializeJSON K gap ind b"
proof (induction a arbitrary: b ind)
  case (JArr xs)
  then obtain ys where b: "b = JArr ys" by (cases b) auto
  from JArr.prems b have l: "list_all2 same_mapping xs ys" by simp
  have "map (serializeJSON K gap (ind @ gap)) xs = map (serializeJSON K gap (ind @ gap)) ys"
    using l JArr.IH JArr.prems(1,2) unfolding b
  proof (induction xs ys rule: list_all2_induct)
    case Nil
    then show ?case by simp
  next
    case (Cons x xs y ys)
    then show ?case by auto
  qed
  then show ?case by (simp add: b)
next
  case (JObj xs)
  then obtain ys where b: "b = JObj ys" by (cases b) auto
  from JObj.prems b have dx: "distinct (map fst xs)" and dy: "distinct (map fst ys)"
    and sm: "same_mapping (JObj xs) (JObj ys)" by auto
  have keys: "fst ` set xs = fst ` set ys" by (rule same_mapping_keys[OF dx dy sm])
  have part: "(case map_of xs P of None \<Rightarrow> inherited P
                | Some v \<Rightarrow> [quoteJSON P @ '':'' @ (if gap = [] then [] else '' '')
                               @ serializeJSON K gap (ind @ gap) v])
            = (case map_of ys P of None \<Rightarrow> inherited P
                | Some v \<Rightarrow> [quoteJSON P @ '':'' @ (if gap = [] then [] else '' '')
                               @ serializeJSON K gap (ind @ gap) v])" for P inherited
  proof (cases "map_of xs P")
    case None
    then have "P \<notin> fst ` set xs" by (simp add: map_of_eq_None_iff)
    with keys have "map_of ys P = None" by (simp add: map_of_eq_None_iff)
    with None show ?thesis by simp
  next
    case (Some v)
    from same_mapping_lookup[OF dx sm Some] obtain w
      where w: "map_of ys P = Some w" "same_mapping v w" by blast
    have "(P, v) \<in> set xs" using Some by (rule map_of_SomeD)
    moreover have "(P, w) \<in> set ys" using w(1) by (rule map_of_SomeD)
    moreover have "wf_json v" using \<open>(P, v) \<in> set xs\<close> JObj.prems(1) by auto
    moreover have "wf_json w" using \<open>(P, w) \<in> set ys\<close> JObj.prems(2) b by auto
    ultimately have "serializeJSON K gap (ind @ gap) v = serializeJSON K gap (ind @ gap) w"
      using JObj.IH[of "(P, v)" v w "ind @ gap"] w(2) by simp
    with Some w(1) show ?thesis by simp
  qed
  have "(\<lambda>P. case map_of xs P of
               None \<Rightarrow>
                 (if P = ''__proto__''
                  then [quoteJSON P @ '':'' @ (if gap = [] then [] else '' '')
                          @ serializeObjectPrototype K gap (ind @ gap)]
                  else [])
             | Some v \<Rightarrow> [quoteJSON P @ '':'' @ (if gap = [] then [] else '' '')
                            @ serializeJSON K gap (ind @ gap) v])
      = (\<lambda>P. case map_of ys P of
               None \<Rightarrow>
                 (if P = ''__proto__''
                  then [quoteJSON P @ '':'' @ (if gap = [] then [] else '' '')
                          @ serializeObjectPrototype K gap (ind @ gap)]
                  else [])
             | Some v \<Rightarrow> [quoteJSON P @ '':'' @ (if gap = [] then [] else '' '')
                            @ serializeJSON K gap (ind @ gap) v])"
    by (rule ext) (rule part)
  then show ?case unfolding b serializeJSON.simps by (rule arg_cong)
qed auto

text \<open>The keys the first run collects are the same up to their order.\<close>

lemma keysOf_obj_sum:
  "distinct (map fst xs) \<Longrightarrow>
   mset (concat (map (\<lambda>(k, v). k # keysOf v) xs))
     = (\<Sum>k \<in> fst ` set xs. {#k#} + mset (keysOf (the (map_of xs k))))"
proof (induction xs)
  case Nil
  then show ?case by simp
next
  case (Cons x xs)
  obtain k v where x: "x = (k, v)" by (cases x)
  from Cons.prems x have k: "k \<notin> fst ` set xs" and d: "distinct (map fst xs)" by auto
  have "(\<Sum>k' \<in> fst ` set xs. {#k'#} + mset (keysOf (the (map_of ((k, v) # xs) k'))))
        = (\<Sum>k' \<in> fst ` set xs. {#k'#} + mset (keysOf (the (map_of xs k'))))"
    using k by (intro sum.cong) auto
  then show ?case using k d Cons.IH by (simp add: x)
qed

lemma keysOf_same_mapping:
  "wf_json a \<Longrightarrow> wf_json b \<Longrightarrow> same_mapping a b \<Longrightarrow> mset (keysOf a) = mset (keysOf b)"
proof (induction a arbitrary: b)
  case (JArr xs)
  then obtain ys where b: "b = JArr ys" by (cases b) auto
  from JArr.prems b have l: "list_all2 same_mapping xs ys" by simp
  have "mset (concat (map (\<lambda>(i, v). showNat i # keysOf v) (enumerate n xs)))
      = mset (concat (map (\<lambda>(i, v). showNat i # keysOf v) (enumerate n ys)))" for n
    using l JArr.IH JArr.prems(1,2) unfolding b
  proof (induction xs ys arbitrary: n rule: list_all2_induct)
    case Nil
    then show ?case by simp
  next
    case (Cons x xs y ys)
    then show ?case by auto
  qed
  then show ?case by (simp add: b)
next
  case (JObj xs)
  then obtain ys where b: "b = JObj ys" by (cases b) auto
  from JObj.prems b have dx: "distinct (map fst xs)" and dy: "distinct (map fst ys)"
    and sm: "same_mapping (JObj xs) (JObj ys)" by auto
  have keys: "fst ` set xs = fst ` set ys" by (rule same_mapping_keys[OF dx dy sm])
  have "(\<Sum>k \<in> fst ` set xs. {#k#} + mset (keysOf (the (map_of xs k))))
      = (\<Sum>k \<in> fst ` set ys. {#k#} + mset (keysOf (the (map_of ys k))))"
  proof (rule sum.cong[OF keys])
    fix k assume "k \<in> fst ` set ys"
    with keys have "k \<in> fst ` set xs" by simp
    then obtain v where v: "map_of xs k = Some v"
      by (metis map_of_eq_None_iff not_Some_eq)
    from same_mapping_lookup[OF dx sm v] obtain w
      where w: "map_of ys k = Some w" "same_mapping v w" by blast
    have "(k, v) \<in> set xs" using v by (rule map_of_SomeD)
    moreover have "(k, w) \<in> set ys" using w(1) by (rule map_of_SomeD)
    moreover have "wf_json v" using \<open>(k, v) \<in> set xs\<close> JObj.prems(1) by auto
    moreover have "wf_json w" using \<open>(k, w) \<in> set ys\<close> JObj.prems(2) b by auto
    ultimately have "mset (keysOf v) = mset (keysOf w)"
      using JObj.IH[of "(k, v)" v w] w(2) by simp
    with v w(1) show "{#k#} + mset (keysOf (the (map_of xs k)))
                    = {#k#} + mset (keysOf (the (map_of ys k)))" by simp
  qed
  then show ?case unfolding b by (simp add: keysOf_obj_sum dx dy)
qed auto

lemma orderStringify_same_mapping:
  assumes "wf_json a" "wf_json b" "same_mapping a b"
  shows "orderStringify a space = orderStringify b space"
proof -
  have "mset ([] # keysOf a) = mset ([] # keysOf b)"
    using keysOf_same_mapping[OF assms] by simp
  then have "sort ([] # keysOf a) = sort ([] # keysOf b)" by (rule sort_mset_cong)
  then show ?thesis
    using serializeJSON_same_mapping[OF assms] by (simp add: orderStringify_def Let_def)
qed

subsection \<open>Copying objects\<close>

lemma setprop_fresh: "key \<notin> fst ` set ob \<Longrightarrow> setprop ob key v = ob @ [(key, v)]"
  by (induction ob) auto

text \<open>
  Assigning the properties of a source to a target that has none of them: every
  property is added, except \<^verbatim>\<open>__proto__\<close>, which goes to the setter.
\<close>

lemma foldl_assignProperty:
  "distinct (map fst (props t @ r)) \<Longrightarrow> ''__proto__'' \<notin> fst ` set (props t) \<Longrightarrow>
   (''__proto__'' \<in> fst ` set r \<Longrightarrow> setterInherited (proto t)) \<Longrightarrow>
   foldl (\<lambda>t' (k, v). assignProperty t' k v) t r
     = t\<lparr>props := props t @ filter (\<lambda>(k, v). k \<noteq> ''__proto__'') r,
         proto := (case map_of r ''__proto__'' of
                     None \<Rightarrow> proto t
                   | Some v \<Rightarrow> protoSetter (proto t) v)\<rparr>"
proof (induction r arbitrary: t)
  case Nil
  then show ?case by simp
next
  case (Cons x r)
  obtain k v where x: "x = (k, v)" by (cases x)
  show ?case
  proof (cases "k = ''__proto__''")
    case True
    from Cons.prems x True have nr: "''__proto__'' \<notin> fst ` set r" by auto
    then have none: "map_of r ''__proto__'' = None" by (simp add: map_of_eq_None_iff)
    from Cons.prems x True
    have step: "assignProperty t ''__proto__'' v = t\<lparr>proto := protoSetter (proto t) v\<rparr>"
      by (simp add: assignProperty_def getprop_def map_of_eq_None_iff)
    have "foldl (\<lambda>t' (k, v). assignProperty t' k v) (t\<lparr>proto := protoSetter (proto t) v\<rparr>) r
        = (t\<lparr>proto := protoSetter (proto t) v\<rparr>)
            \<lparr>props := props (t\<lparr>proto := protoSetter (proto t) v\<rparr>)
                        @ filter (\<lambda>(k, v). k \<noteq> ''__proto__'') r,
              proto := (case map_of r ''__proto__'' of
                          None \<Rightarrow> proto (t\<lparr>proto := protoSetter (proto t) v\<rparr>)
                        | Some w \<Rightarrow> protoSetter (proto (t\<lparr>proto := protoSetter (proto t) v\<rparr>)) w)\<rparr>"
      using Cons.prems x nr by (intro Cons.IH) auto
    then show ?thesis using True none by (simp add: x step)
  next
    case False
    from Cons.prems x have "k \<notin> fst ` set (props t)" by auto
    then have step: "assignProperty t k v = t\<lparr>props := props t @ [(k, v)]\<rparr>"
      using False by (simp add: assignProperty_def setprop_fresh)
    have "foldl (\<lambda>t' (k, v). assignProperty t' k v) (t\<lparr>props := props t @ [(k, v)]\<rparr>) r
        = (t\<lparr>props := props t @ [(k, v)]\<rparr>)
            \<lparr>props := props (t\<lparr>props := props t @ [(k, v)]\<rparr>)
                        @ filter (\<lambda>(k, v). k \<noteq> ''__proto__'') r,
              proto := (case map_of r ''__proto__'' of
                          None \<Rightarrow> proto (t\<lparr>props := props t @ [(k, v)]\<rparr>)
                        | Some w \<Rightarrow> protoSetter (proto (t\<lparr>props := props t @ [(k, v)]\<rparr>)) w)\<rparr>"
      using Cons.prems x False by (intro Cons.IH) auto
    then show ?thesis using False by (simp add: x step cong: option.case_cong)
  qed
qed

lemma objectAssign_copy:
  assumes "distinct (map fst c)"
  shows "objectAssign (newObject []) [c]
         = \<lparr>props = filter (\<lambda>(k, v). k \<noteq> ''__proto__'') c,
            proto = (case getprop c ''__proto__'' of
                       None \<Rightarrow> ObjectPrototype
                     | Some v \<Rightarrow> protoSetter ObjectPrototype v)\<rparr>"
  using assms foldl_assignProperty[of "newObject []" c]
  by (simp add: objectAssign_def newObject_def getprop_def cong: option.case_cong)

lemma objectAssign_plain:
  assumes "distinct (map fst (a @ s))" and "''__proto__'' \<notin> fst ` set (a @ s)"
  shows "objectAssign (newObject []) [a, s] = newObject (a @ s)"
proof -
  have f: "filter (\<lambda>(k, v). k \<noteq> ''__proto__'') xs = xs" if "''__proto__'' \<notin> fst ` set xs"
    for xs :: obj
    using that by (induction xs) auto
  have n: "map_of xs ''__proto__'' = None" if "''__proto__'' \<notin> fst ` set xs" for xs :: obj
    using that by (simp add: map_of_eq_None_iff)
  from assms have a: "distinct (map fst a)" "''__proto__'' \<notin> fst ` set a"
    and s: "''__proto__'' \<notin> fst ` set s" by auto
  have 1: "foldl (\<lambda>t' (k, v). assignProperty t' k v) (newObject []) a = newObject a"
    using foldl_assignProperty[of "newObject []" a] a
    by (simp add: newObject_def f n)
  have 2: "foldl (\<lambda>t' (k, v). assignProperty t' k v) (newObject a) s = newObject (a @ s)"
    using foldl_assignProperty[of "newObject a" s] assms(1) a(2) s
    by (simp add: newObject_def f n)
  show ?thesis by (simp add: objectAssign_def 1 2)
qed

lemma objectFromArray_single:
  "props (objectFromArray [(k, v)]) = filter (\<lambda>(k, v). k \<noteq> ''__proto__'') [(k, v)]"
  by (simp add: objectFromArray_def objectAssign_def assignProperty_def newObject_def
      getprop_def)

lemma withoutKeys_fold:
  assumes "distinct (map fst xs)"
  shows "set ys \<subseteq> set xs \<Longrightarrow> distinct (map fst (acc @ ys)) \<Longrightarrow>
     ''__proto__'' \<notin> fst ` set acc \<Longrightarrow>
     foldl (\<lambda>result key.
              if key \<in> set keys then result
              else (case getprop xs key of
                      None \<Rightarrow> result
                    | Some v \<Rightarrow>
                        objectAssign (newObject [])
                          [props result, props (objectFromArray [(key, v)])]))
       (newObject acc) (map fst ys)
     = newObject (acc @ filter (\<lambda>(k, v). k \<notin> set keys \<and> k \<noteq> ''__proto__'') ys)"
proof (induction ys arbitrary: acc)
  case Nil
  then show ?case by simp
next
  case (Cons y ys)
  obtain k v where y: "y = (k, v)" by (cases y)
  from Cons.prems y have "(k, v) \<in> set xs" by simp
  with assms have look: "getprop xs k = Some v" by (simp add: getprop_def)
  from Cons.prems y have dacc: "distinct (map fst acc)" and kacc: "k \<notin> fst ` set acc"
    and dys: "distinct (map fst (acc @ ys))" by auto
  have pn: "props (newObject acc) = acc" by (simp add: newObject_def)
  show ?case
  proof (cases "k \<in> set keys \<or> k = ''__proto__''")
    case True
    have "objectAssign (newObject []) [acc, []] = newObject acc"
      using objectAssign_plain[of acc "[]"] dacc Cons.prems(3) by simp
    then show ?thesis
      using True Cons.IH[of acc] Cons.prems(1,3) dys look
      by (auto simp: y objectFromArray_single pn)
  next
    case False
    have "distinct (map fst ((acc @ [(k, v)]) @ ys))" using Cons.prems y by simp
    moreover have "''__proto__'' \<notin> fst ` set (acc @ [(k, v)])"
      using Cons.prems(3) False by auto
    moreover have "objectAssign (newObject []) [acc, [(k, v)]] = newObject (acc @ [(k, v)])"
      using objectAssign_plain[of acc "[(k, v)]"] dacc kacc Cons.prems(3) False by auto
    ultimately show ?thesis
      using Cons.IH[of "acc @ [(k, v)]"] Cons.prems(1) False look
      by (simp add: y objectFromArray_single pn)
  qed
qed

text \<open>
  On an object, \<^verbatim>\<open>withoutKeys\<close> keeps the other properties, in their order, except a
  property \<^verbatim>\<open>__proto__\<close>, which the copy loses.
\<close>

lemma withoutKeys_filter:
  "distinct (map fst xs) \<Longrightarrow>
   withoutKeys xs keys
     = newObject (filter (\<lambda>(k, v). k \<notin> set keys \<and> k \<noteq> ''__proto__'') xs)"
  using withoutKeys_fold[of xs xs "[]" keys] by (simp add: withoutKeys_def)

lemma wf_json_filter:
  "wf_json (JObj xs) \<Longrightarrow> wf_json (JObj (filter (\<lambda>(k, v). P k) xs))"
  by (auto simp: distinct_map_filter)

lemma length_filter_keys:
  assumes "distinct (map fst xs)"
  shows "length (filter (\<lambda>(k, v). P k) xs) = card {k \<in> fst ` set xs. P k}"
proof -
  have "map fst (filter (\<lambda>(k, v). P k) xs) = filter P (map fst xs)"
    by (induction xs) auto
  moreover have "distinct (filter P (map fst xs))" using assms by simp
  ultimately have "length (filter (\<lambda>(k, v). P k) xs) = card (set (filter P (map fst xs)))"
    by (metis distinct_card length_map)
  moreover have "set (filter P (map fst xs)) = {k \<in> fst ` set xs. P k}" by auto
  ultimately show ?thesis by simp
qed

lemma same_mapping_filter:
  assumes "wf_json (JObj xs)" "wf_json (JObj ys)" "same_mapping (JObj xs) (JObj ys)"
  shows "same_mapping (JObj (filter (\<lambda>(k, v). P k) xs)) (JObj (filter (\<lambda>(k, v). P k) ys))"
proof -
  from assms have dx: "distinct (map fst xs)" and dy: "distinct (map fst ys)" by auto
  have keys: "fst ` set xs = fst ` set ys" by (rule same_mapping_keys[OF dx dy assms(3)])
  have len: "length (filter (\<lambda>(k, v). P k) xs) = length (filter (\<lambda>(k, v). P k) ys)"
    by (simp add: length_filter_keys dx dy keys)
  have "case map_of (filter (\<lambda>(k, v). P k) ys) k of
          None \<Rightarrow> False
        | Some w \<Rightarrow> same_mapping v w"
    if "(k, v) \<in> set xs" "P k" for k v
  proof -
    from that(1) dx have "map_of xs k = Some v" by simp
    from same_mapping_lookup[OF dx assms(3) this] obtain w
      where w: "map_of ys k = Some w" "same_mapping v w" by blast
    from w(1) that(2) have "map_of (filter (\<lambda>(k, v). P k) ys) k = Some w"
      by (simp add: map_of_filter_in)
    with w(2) show ?thesis by simp
  qed
  with len show ?thesis by auto
qed

lemma calcId_same_mapping:
  assumes "wf_json (JObj xs)" "wf_json (JObj ys)" "same_mapping (JObj xs) (JObj ys)"
  shows "calcId e key xs = calcId e key ys"
proof -
  from assms have dx: "distinct (map fst xs)" and dy: "distinct (map fst ys)" by auto
  have "orderStringify
          (JObj (filter (\<lambda>(k, v). k \<notin> set [key] \<and> k \<noteq> ''__proto__'') xs)) None
      = orderStringify
          (JObj (filter (\<lambda>(k, v). k \<notin> set [key] \<and> k \<noteq> ''__proto__'') ys)) None"
    by (intro orderStringify_same_mapping wf_json_filter same_mapping_filter assms)
  then show ?thesis by (simp add: calcId_def withoutKeys_filter dx dy newObject_def)
qed

text \<open>
  C7. Two objects that hold the same key-to-value mapping and differ only in the order
  in which their keys were inserted, at any depth, have the same \<^verbatim>\<open>orderStringify\<close>
  text for every \<^verbatim>\<open>space\<close>, hence the same \<^verbatim>\<open>digestBase64\<close> of that text and the same
  content identifier for every identifier field. \<^verbatim>\<open>orderStringify\<close>, \<^verbatim>\<open>digestBase64\<close>
  and the identifier read no state: they are functions of their arguments, so a
  repeated call on the same value returns the same output.
\<close>

theorem orderStringify_insertion_order:
  assumes "wf_json (JObj xs)" and "wf_json (JObj ys)"
    and "same_mapping (JObj xs) (JObj ys)"
  shows "orderStringify (JObj xs) space = orderStringify (JObj ys) space
       \<and> digestBase64 e (orderStringify (JObj xs) space)
           = digestBase64 e (orderStringify (JObj ys) space)
       \<and> calcId e key xs = calcId e key ys"
  using orderStringify_same_mapping[OF assms] calcId_same_mapping[OF assms] by simp

theorem orderStringify_insertion_order_witness:
  "wf_json (JObj [(''typ'', JStr ''Create''), (''aud'', JArr [JObj [(''b'', JNull), (''a'', JNum 1)]])])
   \<and> wf_json (JObj [(''aud'', JArr [JObj [(''a'', JNum 1), (''b'', JNull)]]), (''typ'', JStr ''Create'')])
   \<and> same_mapping
        (JObj [(''typ'', JStr ''Create''), (''aud'', JArr [JObj [(''b'', JNull), (''a'', JNum 1)]])])
        (JObj [(''aud'', JArr [JObj [(''a'', JNum 1), (''b'', JNull)]]), (''typ'', JStr ''Create'')])
   \<and> orderStringify
        (JObj [(''typ'', JStr ''Create''), (''aud'', JArr [JObj [(''b'', JNull), (''a'', JNum 1)]])]) None
     = orderStringify
        (JObj [(''aud'', JArr [JObj [(''a'', JNum 1), (''b'', JNull)]]), (''typ'', JStr ''Create'')]) None
   \<and> calcId sample_env ''jti''
        [(''typ'', JStr ''Create''), (''aud'', JArr [JObj [(''b'', JNull), (''a'', JNum 1)]])]
     = calcId sample_env ''jti''
        [(''aud'', JArr [JObj [(''a'', JNum 1), (''b'', JNull)]]), (''typ'', JStr ''Create'')]"
proof -
  have a: "wf_json (JObj [(''typ'', JStr ''Create''),
             (''aud'', JArr [JObj [(''b'', JNull), (''a'', JNum 1)]])])"
    by simp
  have b: "wf_json (JObj [(''aud'', JArr [JObj [(''a'', JNum 1), (''b'', JNull)]]),
             (''typ'', JStr ''Create'')])"
    by simp
  have c: "same_mapping
        (JObj [(''typ'', JStr ''Create''), (''aud'', JArr [JObj [(''b'', JNull), (''a'', JNum 1)]])])
        (JObj [(''aud'', JArr [JObj [(''a'', JNum 1), (''b'', JNull)]]), (''typ'', JStr ''Create'')])"
    by simp
  show ?thesis
    using orderStringify_insertion_order[OF a b c, of None sample_env "''jti''"] a b c
    by blast
qed

section \<open>The builders\<close>

lemma getprop_setprop:
  "getprop (setprop ob key v) k = (if k = key then Some v else getprop ob k)"
  by (induction ob) (auto simp: getprop_def)




lemma getprop_filter:
  "getprop (filter (\<lambda>(k, v). P k) ob) k = (if P k then getprop ob k else None)"
  by (induction ob) (auto simp: getprop_def)

lemma assign_literal:
  assumes "claims < length h" and "distinct (map fst (props (h ! claims)))"
    and "key \<noteq> ''__proto__''"
  shows "(let (h1, target) = alloc h [];
               (h2, source) = alloc h1 [(key, v)]
           in Object_assign h2 target [claims, source])
         = (h @ [\<lparr>props = setprop (filter (\<lambda>(k, v). k \<noteq> ''__proto__'') (props (h ! claims)))
                             key v,
                   proto = (case getprop (props (h ! claims)) ''__proto__'' of
                              None \<Rightarrow> ObjectPrototype
                            | Some w \<Rightarrow> protoSetter ObjectPrototype w)\<rparr>,
                 newObject [(key, v)]], length h)"
proof -
  have "(h @ [ob, newObject [(key, v)]]) ! claims = h ! claims" for ob
    using assms(1) by (simp add: nth_append)
  moreover have "(h @ [ob, newObject [(key, v)]]) ! length h = ob" for ob
    by (simp add: nth_append)
  moreover have "(h @ [ob, newObject [(key, v)]]) ! Suc (length h) = newObject [(key, v)]" for ob
    by (simp add: nth_append)
  moreover have "(h @ [ob, newObject [(key, v)]])[length h := ob'] = h @ [ob', newObject [(key, v)]]"
    for ob ob'
    by (simp add: list_update_append)
  moreover have "objectAssign (objectAssign (newObject []) [props (h ! claims)]) [[(key, v)]]
      = \<lparr>props = setprop (filter (\<lambda>(k, v). k \<noteq> ''__proto__'') (props (h ! claims))) key v,
         proto = (case getprop (props (h ! claims)) ''__proto__'' of
                    None \<Rightarrow> ObjectPrototype
                  | Some w \<Rightarrow> protoSetter ObjectPrototype w)\<rparr>"
    using assms(3) unfolding objectAssign_copy[OF assms(2)]
    by (simp add: objectAssign_def assignProperty_def)
  moreover have "props (newObject [(key, v)]) = [(key, v)]" by (simp add: newObject_def)
  ultimately show ?thesis
    by (simp add: alloc_def Object_assign_def)
qed

lemma setClaimsId_store:
  assumes "claims < length h" and "distinct (map fst (props (h ! claims)))"
  shows "setClaimsId e h claims
         = (h @ [\<lparr>props = setprop (filter (\<lambda>(k, v). k \<noteq> ''__proto__'') (props (h ! claims)))
                             ''jti'' (JStr (calcClaimsId e (props (h ! claims)))),
                   proto = (case getprop (props (h ! claims)) ''__proto__'' of
                              None \<Rightarrow> ObjectPrototype
                            | Some w \<Rightarrow> protoSetter ObjectPrototype w)\<rparr>,
                 newObject [(''jti'', JStr (calcClaimsId e (props (h ! claims))))]], length h)"
proof -
  have "(h @ [newObject []]) ! claims = h ! claims" using assms(1) by (simp add: nth_append)
  then show ?thesis
    using assign_literal[OF assms, of "''jti''" "JStr (calcClaimsId e (props (h ! claims)))"]
    by (simp add: setClaimsId_def alloc_def)
qed

lemma timestamp_store:
  assumes "claims < length h" and "distinct (map fst (props (h ! claims)))"
  shows "timestamp now h claims
         = (h @ [\<lparr>props = setprop (filter (\<lambda>(k, v). k \<noteq> ''__proto__'') (props (h ! claims)))
                             ''iat'' (JNum now),
                   proto = (case getprop (props (h ! claims)) ''__proto__'' of
                              None \<Rightarrow> ObjectPrototype
                            | Some w \<Rightarrow> protoSetter ObjectPrototype w)\<rparr>,
                 newObject [(''iat'', JNum now)]], length h)"
  using assign_literal[OF assms, of "''iat''" "JNum now"] by (simp add: timestamp_def)

text \<open>
  C8, as the source has it. \<^verbatim>\<open>Object.assign\<close> assigns to a new \<^verbatim>\<open>{}\<close>, so a field
  \<^verbatim>\<open>__proto__\<close> of the claims goes to the setter of \<^verbatim>\<open>Object.prototype\<close> and is not a
  field of the object returned: \<^verbatim>\<open>timestamp\<close> at time 100 of the claims with the fields
  \<^verbatim>\<open>typ\<close> and \<^verbatim>\<open>__proto__\<close>, the latter 5, returns an object with the fields \<^verbatim>\<open>typ\<close>
  and \<^verbatim>\<open>iat\<close> only, and \<^verbatim>\<open>setClaimsId\<close> returns one without \<^verbatim>\<open>__proto__\<close> as well.
\<close>

theorem builders_proto_counterexample:
  "getprop (props ([newObject [(''typ'', JStr ''Create''), (''__proto__'', JNum 5)]] ! 0))
      ''__proto__'' = Some (JNum 5)
   \<and> props (fst (timestamp 100
                    [newObject [(''typ'', JStr ''Create''), (''__proto__'', JNum 5)]] 0)
             ! snd (timestamp 100
                      [newObject [(''typ'', JStr ''Create''), (''__proto__'', JNum 5)]] 0))
        = [(''typ'', JStr ''Create''), (''iat'', JNum 100)]
   \<and> getprop (props (fst (setClaimsId sample_env
                    [newObject [(''typ'', JStr ''Create''), (''__proto__'', JNum 5)]] 0)
             ! snd (setClaimsId sample_env
                      [newObject [(''typ'', JStr ''Create''), (''__proto__'', JNum 5)]] 0)))
        ''__proto__'' = None"
  by code_simp

text \<open>
  C8, amended. On a store in which \<^verbatim>\<open>claims\<close> refers to an object, \<^verbatim>\<open>setClaimsId\<close>
  returns a reference to a new object: the reference was not in use, every object that
  was in the store is unchanged (the input among them), and the new object has the
  computed identifier as its \<^verbatim>\<open>jti\<close> and the field of the input at every other key
  except \<^verbatim>\<open>__proto__\<close>. It has no field \<^verbatim>\<open>__proto__\<close>; if the input has one whose value
  is an object, an array or \<^verbatim>\<open>null\<close>, that value is its prototype. The same holds of
  \<^verbatim>\<open>timestamp\<close> with \<^verbatim>\<open>iat\<close> and the current time.
\<close>

theorem builders_frame:
  assumes "claims < length h" and "distinct (map fst (props (h ! claims)))"
  shows "(case setClaimsId e h claims of
            (h', r) \<Rightarrow>
              length h \<le> r \<and> r < length h' \<and> (\<forall>a < length h. h' ! a = h ! a)
              \<and> getprop (props (h' ! r)) ''jti''
                  = Some (JStr (calcClaimsId e (props (h ! claims))))
              \<and> (\<forall>k. k \<noteq> ''jti'' \<and> k \<noteq> ''__proto__''
                     \<longrightarrow> getprop (props (h' ! r)) k = getprop (props (h ! claims)) k)
              \<and> getprop (props (h' ! r)) ''__proto__'' = None
              \<and> proto (h' ! r)
                  = (case getprop (props (h ! claims)) ''__proto__'' of
                       None \<Rightarrow> ObjectPrototype
                     | Some w \<Rightarrow> protoSetter ObjectPrototype w))
       \<and> (case timestamp now h claims of
            (h', r) \<Rightarrow>
              length h \<le> r \<and> r < length h' \<and> (\<forall>a < length h. h' ! a = h ! a)
              \<and> getprop (props (h' ! r)) ''iat'' = Some (JNum now)
              \<and> (\<forall>k. k \<noteq> ''iat'' \<and> k \<noteq> ''__proto__''
                     \<longrightarrow> getprop (props (h' ! r)) k = getprop (props (h ! claims)) k)
              \<and> getprop (props (h' ! r)) ''__proto__'' = None
              \<and> proto (h' ! r)
                  = (case getprop (props (h ! claims)) ''__proto__'' of
                       None \<Rightarrow> ObjectPrototype
                     | Some w \<Rightarrow> protoSetter ObjectPrototype w))"
  by (simp add: setClaimsId_store[OF assms] timestamp_store[OF assms] nth_append
      getprop_setprop getprop_filter)

theorem builders_frame_witness:
  "(0::nat) < length [newObject [(''typ'', JStr ''Create''), (''jti'', JStr ''old'')]]
   \<and> distinct (map fst (props ([newObject [(''typ'', JStr ''Create''), (''jti'', JStr ''old'')]] ! 0)))
   \<and> fst (setClaimsId sample_env
            [newObject [(''typ'', JStr ''Create''), (''jti'', JStr ''old'')]] 0) ! 0
        = newObject [(''typ'', JStr ''Create''), (''jti'', JStr ''old'')]
   \<and> getprop (props (fst (setClaimsId sample_env
                            [newObject [(''typ'', JStr ''Create''), (''jti'', JStr ''old'')]] 0)
                ! snd (setClaimsId sample_env
                         [newObject [(''typ'', JStr ''Create''), (''jti'', JStr ''old'')]] 0)))
        ''typ'' = Some (JStr ''Create'')
   \<and> fst (timestamp 100 [newObject [(''typ'', JStr ''Create''), (''jti'', JStr ''old'')]] 0) ! 0
        = newObject [(''typ'', JStr ''Create''), (''jti'', JStr ''old'')]
   \<and> getprop (props (fst (timestamp 100
                            [newObject [(''typ'', JStr ''Create''), (''jti'', JStr ''old'')]] 0)
                ! snd (timestamp 100
                         [newObject [(''typ'', JStr ''Create''), (''jti'', JStr ''old'')]] 0)))
        ''iat'' = Some (JNum 100)"
proof -
  have a: "(0::nat) < length [newObject [(''typ'', JStr ''Create''), (''jti'', JStr ''old'')]]"
    by simp
  have b: "distinct (map fst (props ([newObject [(''typ'', JStr ''Create''),
             (''jti'', JStr ''old'')]] ! 0)))"
    by (simp add: newObject_def)
  have c: "getprop (props ([newObject [(''typ'', JStr ''Create''), (''jti'', JStr ''old'')]] ! 0))
             ''typ'' = Some (JStr ''Create'')"
    by (simp add: getprop_def newObject_def)
  show ?thesis
    using builders_frame[OF a b, of sample_env 100] a b c
    by (auto simp: case_prod_beta)
qed




section \<open>Validation of claims\<close>

lemma guard_eq_None [simp]: "guard b err = None \<longleftrightarrow> \<not> b"
  by (simp add: guard_def)

lemma guard_eq_Some [simp]: "guard b err = Some err' \<longleftrightarrow> b \<and> err = err'"
  by (simp add: guard_def)

lemma guard_eq_Some' [simp]: "Some err' = guard b err \<longleftrightarrow> b \<and> err = err'"
  by (auto simp add: guard_def)

lemma guardThrowing_eq_None [simp]: "guardThrowing b err = None \<longleftrightarrow> b = Returns False"
  by (cases b) (auto simp: guardThrowing_def)

lemma guardThrowing_eq_Some:
  "guardThrowing b err = Some err' \<longleftrightarrow> (b = Returns True \<and> err = err') \<or> b = Throws err'"
  by (cases b) (auto simp: guardThrowing_def)

lemma guardThrowing_eq_Some':
  "Some err' = guardThrowing b err \<longleftrightarrow> (b = Returns True \<and> err = err') \<or> b = Throws err'"
  by (cases b) (auto simp: guardThrowing_def)

lemma guardThrowing_SomeD:
  assumes "Some err' = guardThrowing b err" and "\<And>thrown. b = Throws thrown \<Longrightarrow> thrown = TypeError"
  shows "(b = Returns True \<and> err' = err) \<or> err' = TypeError"
  using assms by (cases b) (auto simp: guardThrowing_def)

text \<open>A comparison throws nothing but a TypeError, and nothing on two numbers.\<close>

lemma isLessThan_throws: "isLessThan e x y = Throws err \<Longrightarrow> err = TypeError"
  by (auto simp: isLessThan_def split: if_splits option.splits)

lemma js_lt_throws: "js_lt e a b = Throws err \<Longrightarrow> err = TypeError"
  by (auto simp: js_lt_def split: outcome.splits dest: isLessThan_throws)

lemma js_le_throws: "js_le e a b = Throws err \<Longrightarrow> err = TypeError"
  by (auto simp: js_le_def split: outcome.splits dest: isLessThan_throws)

lemma js_gt_throws: "js_gt e a b = Throws err \<Longrightarrow> err = TypeError"
  by (auto simp: js_gt_def split: outcome.splits dest: isLessThan_throws)

lemma js_lt_JNum [simp]: "js_lt e (Some (JNum a)) (Some (JNum b)) = Returns (a < b)"
  by (simp add: js_lt_def isLessThan_def)

lemma js_le_JNum [simp]: "js_le e (Some (JNum a)) (Some (JNum b)) = Returns (a \<le> b)"
  by (auto simp add: js_le_def isLessThan_def)

lemma js_gt_JNum [simp]: "js_gt e (Some (JNum a)) (Some (JNum b)) = Returns (b < a)"
  by (simp add: js_gt_def isLessThan_def)

lemma firstThrow_None_iff: "firstThrow xs = None \<longleftrightarrow> (\<forall>x \<in> set xs. x = None)"
  by (induction xs rule: firstThrow.induct) auto

lemma firstThrow_SomeD: "firstThrow xs = Some err \<Longrightarrow> Some err \<in> set xs"
  by (induction xs rule: firstThrow.induct) auto

lemma strictEq_JStr [simp]: "strictEq x (Some (JStr s)) \<longleftrightarrow> x = Some (JStr s)"
  by (cases "(x, Some (JStr s))" rule: strictEq.cases) auto

lemma strictEq_JStr' [simp]: "strictEq (Some (JStr s)) x \<longleftrightarrow> x = Some (JStr s)"
  by (cases "(Some (JStr s), x)" rule: strictEq.cases) auto

lemma strictEq_None [simp]: "strictEq x None \<longleftrightarrow> x = None"
  by (cases "(x, None :: json option)" rule: strictEq.cases) auto

lemma validateClaims_unfold:
  "validateClaims e now1 now2 claims m schemaClaims schemaMeta =
     (if validateMeta e m schemaMeta then
        (case firstThrow (validateClaims_checks e now1 now2 claims m schemaClaims) of
           Some err \<Rightarrow> (Returns False, [err])
         | None \<Rightarrow> (Returns True, []))
      else (Returns False, []))"
  by (simp add: validateClaims_def validateClaims_try_def split: option.splits)

lemma validateClaims_succeeds_iff:
  "fst (validateClaims e now1 now2 claims m schemaClaims schemaMeta) = Returns True \<longleftrightarrow>
     validateMeta e m schemaMeta
     \<and> firstThrow (validateClaims_checks e now1 now2 claims m schemaClaims) = None"
  by (simp add: validateClaims_unfold split: option.splits)

lemma validateClaims_logged:
  "err \<in> set (snd (validateClaims e now1 now2 claims m schemaClaims schemaMeta)) \<longleftrightarrow>
     validateMeta e m schemaMeta
     \<and> firstThrow (validateClaims_checks e now1 now2 claims m schemaClaims) = Some err"
  by (auto simp add: validateClaims_unfold split: option.splits)

lemma in_set9:
  assumes "x \<in> set [a1, a2, a3, a4, a5, a6, a7, a8, a9]"
  obtains "x = a1" | "x = a2" | "x = a3" | "x = a4" | "x = a5" | "x = a6" | "x = a7"
    | "x = a8" | "x = a9"
  using assms by auto

lemma in_set3:
  assumes "x \<in> set [a1, a2, a3]"
  obtains "x = a1" | "x = a2" | "x = a3"
  using assms by auto

lemma in_set2:
  assumes "x \<in> set [a1, a2]"
  obtains "x = a1" | "x = a2"
  using assms by auto

text \<open>What each statement of \<^verbatim>\<open>validateClaims\<close> throws, and when.\<close>

lemma validateClaims_checks_SomeD:
  assumes "Some err \<in> set (validateClaims_checks e now1 now2 claims m schemaClaims)"
  shows "err = TypeError
       \<or> (err = ClaimsInvalidSchema \<and> \<not> validateSchema (JObj claims) schemaClaims)
       \<or> err = UnexpectedTyp
       \<or> (err = IatLaterThanNow
            \<and> js_gt e (getprop claims ''iat'') (Some (JNum now1)) = Returns True)
       \<or> (err = AudContainsIss \<and> truthy (getprop claims ''aud''))
       \<or> (err = ExpNotAfterIat \<and> truthy (getprop claims ''exp'')
            \<and> js_le e (getprop claims ''exp'') (getprop claims ''iat'') = Returns True)
       \<or> (err = ExpNotAfterNbf \<and> truthy (getprop claims ''exp'')
            \<and> truthy (getprop claims ''nbf'')
            \<and> js_le e (getprop claims ''exp'') (getprop claims ''nbf'') = Returns True)
       \<or> (err = ClaimsExpired \<and> truthy (getprop claims ''exp'')
            \<and> js_lt e (getprop claims ''exp'') (Some (JNum now2)) = Returns True)
       \<or> (err = NbfNotAfterIat \<and> truthy (getprop claims ''nbf'')
            \<and> js_le e (getprop claims ''nbf'') (getprop claims ''iat'') = Returns True)
       \<or> (err = ClaimsNotYetValid \<and> truthy (getprop claims ''nbf'')
            \<and> js_gt e (getprop claims ''nbf'') (Some (JNum now2)) = Returns True)
       \<or> (err = JtiMismatch
            \<and> getprop claims ''jti'' \<noteq> Some (JStr (calcClaimsId e claims)))
       \<or> (err = SubMismatch \<and> getprop claims ''sub'' \<noteq> Some (JStr (calcMetaId e m)))
       \<or> err = IssNotArtist \<or> err = IssNotComposerOrLyricist
       \<or> err = IssNotPerformerOrProducer \<or> err = UnexpectedMetaType"
  using assms unfolding validateClaims_checks_def
proof (cases rule: in_set9)
  case 1 then show ?thesis by simp
next
  case 2 then show ?thesis by simp
next
  case 3
  then have "(js_gt e (getprop claims ''iat'') (Some (JNum now1)) = Returns True
               \<and> err = IatLaterThanNow) \<or> err = TypeError"
    by (rule guardThrowing_SomeD) (rule js_gt_throws)
  then show ?thesis by - (elim disjE conjE; simp)
next
  case 4
  then have "(err = TypeError \<or> err = AudContainsIss) \<and> truthy (getprop claims ''aud'')"
    by (cases "truthy (getprop claims ''aud'')")
       (auto simp: arraySome_def split: option.splits json.splits)
  then show ?thesis by - (elim disjE conjE; simp)
next
  case 5
  then have t: "truthy (getprop claims ''exp'')" by (simp split: if_splits)
  with 5 have "firstThrow
         [guardThrowing (js_le e (getprop claims ''exp'') (getprop claims ''iat''))
            ExpNotAfterIat,
          guardThrowing
            (if truthy (getprop claims ''nbf'')
             then js_le e (getprop claims ''exp'') (getprop claims ''nbf'')
             else Returns False)
            ExpNotAfterNbf,
          guardThrowing (js_lt e (getprop claims ''exp'') (Some (JNum now2))) ClaimsExpired]
        = Some err"
    by (simp only: if_True)
  then have "Some err \<in> set
         [guardThrowing (js_le e (getprop claims ''exp'') (getprop claims ''iat''))
            ExpNotAfterIat,
          guardThrowing
            (if truthy (getprop claims ''nbf'')
             then js_le e (getprop claims ''exp'') (getprop claims ''nbf'')
             else Returns False)
            ExpNotAfterNbf,
          guardThrowing (js_lt e (getprop claims ''exp'') (Some (JNum now2))) ClaimsExpired]"
    by (rule firstThrow_SomeD)
  then show ?thesis
  proof (cases rule: in_set3)
    case 1
    then have "(js_le e (getprop claims ''exp'') (getprop claims ''iat'') = Returns True
                 \<and> err = ExpNotAfterIat) \<or> err = TypeError"
      by (rule guardThrowing_SomeD) (rule js_le_throws)
    with t show ?thesis by - (elim disjE conjE; simp)
  next
    case 2
    then have "((if truthy (getprop claims ''nbf'')
                 then js_le e (getprop claims ''exp'') (getprop claims ''nbf'')
                 else Returns False) = Returns True
                 \<and> err = ExpNotAfterNbf) \<or> err = TypeError"
      by (rule guardThrowing_SomeD) (simp split: if_splits add: js_le_throws)
    then have "(truthy (getprop claims ''nbf'')
                 \<and> js_le e (getprop claims ''exp'') (getprop claims ''nbf'') = Returns True
                 \<and> err = ExpNotAfterNbf) \<or> err = TypeError"
      by (simp split: if_splits)
    with t show ?thesis by - (elim disjE conjE; simp)
  next
    case 3
    then have "(js_lt e (getprop claims ''exp'') (Some (JNum now2)) = Returns True
                 \<and> err = ClaimsExpired) \<or> err = TypeError"
      by (rule guardThrowing_SomeD) (rule js_lt_throws)
    with t show ?thesis by - (elim disjE conjE; simp)
  qed
next
  case 6
  then have t: "truthy (getprop claims ''nbf'')" by (simp split: if_splits)
  with 6 have "firstThrow
         [guardThrowing (js_le e (getprop claims ''nbf'') (getprop claims ''iat''))
            NbfNotAfterIat,
          guardThrowing (js_gt e (getprop claims ''nbf'') (Some (JNum now2)))
            ClaimsNotYetValid]
        = Some err"
    by (simp only: if_True)
  then have "Some err \<in> set
         [guardThrowing (js_le e (getprop claims ''nbf'') (getprop claims ''iat''))
            NbfNotAfterIat,
          guardThrowing (js_gt e (getprop claims ''nbf'') (Some (JNum now2)))
            ClaimsNotYetValid]"
    by (rule firstThrow_SomeD)
  then show ?thesis
  proof (cases rule: in_set2)
    case 1
    then have "(js_le e (getprop claims ''nbf'') (getprop claims ''iat'') = Returns True
                 \<and> err = NbfNotAfterIat) \<or> err = TypeError"
      by (rule guardThrowing_SomeD) (rule js_le_throws)
    with t show ?thesis by - (elim disjE conjE; simp)
  next
    case 2
    then have "(js_gt e (getprop claims ''nbf'') (Some (JNum now2)) = Returns True
                 \<and> err = ClaimsNotYetValid) \<or> err = TypeError"
      by (rule guardThrowing_SomeD) (rule js_gt_throws)
    with t show ?thesis by - (elim disjE conjE; simp)
  qed
next
  case 7 then show ?thesis by simp
next
  case 8 then show ?thesis by simp
next
  case 9
  then have "err = TypeError \<or> err = IssNotArtist \<or> err = IssNotComposerOrLyricist
       \<or> err = IssNotPerformerOrProducer \<or> err = UnexpectedMetaType"
    by (simp split: if_splits option.splits)
  then show ?thesis by - (elim disjE conjE; simp)
qed

lemma validateClaims_loggedD:
  assumes "err \<in> set (snd (validateClaims e now1 now2 claims m schemaClaims schemaMeta))"
  shows "Some err \<in> set (validateClaims_checks e now1 now2 claims m schemaClaims)"
  using assms by (simp add: validateClaims_logged firstThrow_SomeD)

lemma all_set9:
  "(\<forall>x \<in> set [a1, a2, a3, a4, a5, a6, a7, a8, a9]. P x) \<longleftrightarrow>
     P a1 \<and> P a2 \<and> P a3 \<and> P a4 \<and> P a5 \<and> P a6 \<and> P a7 \<and> P a8 \<and> P a9"
  by simp

text \<open>
  The search of a role-address list for \<^verbatim>\<open>claims.iss\<close>. When the argument of
  \<^verbatim>\<open>concat\<close> is absent, the search also succeeds for a claims object without \<^verbatim>\<open>iss\<close>.
\<close>

lemma list_ex_addressList:
  "list_ex (\<lambda>id. strictEq x id) (addressList ids) \<longleftrightarrow> (\<exists>id \<in> set ids. x = Some (JStr id))"
  by (auto simp add: list_ex_iff addressList_def)

lemma list_ex_arrayConcat:
  "list_ex (\<lambda>id. strictEq x id) (arrayConcat ids arg) \<longleftrightarrow>
     (\<exists>id \<in> set ids \<union> addresses arg. x = Some (JStr id)) \<or> (arg = None \<and> x = None)"
  by (cases arg) (auto simp add: arrayConcat_def list_ex_addressList addresses_def)

text \<open>When no statement of \<^verbatim>\<open>validateClaims\<close> throws.\<close>

lemma validateClaims_checks_None_iff:
  "firstThrow (validateClaims_checks e now1 now2 claims m schemaClaims) = None \<longleftrightarrow>
     validateSchema (JObj claims) schemaClaims
     \<and> (getprop claims ''typ'' = Some (JStr ''Create'')
          \<or> getprop claims ''typ'' = Some (JStr ''License''))
     \<and> js_gt e (getprop claims ''iat'') (Some (JNum now1)) = Returns False
     \<and> (truthy (getprop claims ''aud'') \<longrightarrow>
          (\<exists>auds. getprop claims ''aud'' = Some (JArr auds)
             \<and> \<not> list_ex (\<lambda>aud. strictEq (Some aud) (getprop claims ''iss'')) auds))
     \<and> (truthy (getprop claims ''exp'') \<longrightarrow>
          js_le e (getprop claims ''exp'') (getprop claims ''iat'') = Returns False
          \<and> (truthy (getprop claims ''nbf'') \<longrightarrow>
                js_le e (getprop claims ''exp'') (getprop claims ''nbf'') = Returns False)
          \<and> js_lt e (getprop claims ''exp'') (Some (JNum now2)) = Returns False)
     \<and> (truthy (getprop claims ''nbf'') \<longrightarrow>
          js_le e (getprop claims ''nbf'') (getprop claims ''iat'') = Returns False
          \<and> js_gt e (getprop claims ''nbf'') (Some (JNum now2)) = Returns False)
     \<and> getprop claims ''jti'' = Some (JStr (calcClaimsId e claims))
     \<and> getprop claims ''sub'' = Some (JStr (calcMetaId e m))
     \<and> ((mtype m = ''Album''
           \<and> (\<exists>ids. artist m = Some ids
                 \<and> (\<exists>id \<in> set ids. getprop claims ''iss'' = Some (JStr id))))
        \<or> (mtype m = ''Composition''
             \<and> (\<exists>ids. composer m = Some ids
                   \<and> ((\<exists>id \<in> set ids \<union> addresses (lyricist m).
                          getprop claims ''iss'' = Some (JStr id))
                      \<or> (lyricist m = None \<and> getprop claims ''iss'' = None))))
        \<or> (mtype m = ''Recording''
             \<and> (\<exists>ids. performer m = Some ids
                   \<and> ((\<exists>id \<in> set ids \<union> addresses (producer m).
                          getprop claims ''iss'' = Some (JStr id))
                      \<or> (producer m = None \<and> getprop claims ''iss'' = None)))))"
proof -
  have aud: "((if truthy (getprop claims ''aud'') then
         (case arraySome (getprop claims ''aud'')
                 (\<lambda>aud. strictEq (Some aud) (getprop claims ''iss'')) of
            Throws err \<Rightarrow> Some err
          | Returns found \<Rightarrow> guard found AudContainsIss)
       else None) = None) \<longleftrightarrow>
     (truthy (getprop claims ''aud'') \<longrightarrow>
          (\<exists>auds. getprop claims ''aud'' = Some (JArr auds)
             \<and> \<not> list_ex (\<lambda>aud. strictEq (Some aud) (getprop claims ''iss'')) auds))"
    by (cases "truthy (getprop claims ''aud'')")
       (auto simp: arraySome_def split: option.splits json.splits)
  have exp: "((if truthy (getprop claims ''exp'') then
         firstThrow
           [guardThrowing (js_le e (getprop claims ''exp'') (getprop claims ''iat''))
              ExpNotAfterIat,
            guardThrowing
              (if truthy (getprop claims ''nbf'')
               then js_le e (getprop claims ''exp'') (getprop claims ''nbf'')
               else Returns False)
              ExpNotAfterNbf,
            guardThrowing (js_lt e (getprop claims ''exp'') (Some (JNum now2))) ClaimsExpired]
       else None) = None) \<longleftrightarrow>
     (truthy (getprop claims ''exp'') \<longrightarrow>
          js_le e (getprop claims ''exp'') (getprop claims ''iat'') = Returns False
          \<and> (truthy (getprop claims ''nbf'') \<longrightarrow>
                js_le e (getprop claims ''exp'') (getprop claims ''nbf'') = Returns False)
          \<and> js_lt e (getprop claims ''exp'') (Some (JNum now2)) = Returns False)"
    by (cases "truthy (getprop claims ''exp'')") (simp_all add: firstThrow_None_iff)
  have nbf: "((if truthy (getprop claims ''nbf'') then
         firstThrow
           [guardThrowing (js_le e (getprop claims ''nbf'') (getprop claims ''iat''))
              NbfNotAfterIat,
            guardThrowing (js_gt e (getprop claims ''nbf'') (Some (JNum now2)))
              ClaimsNotYetValid]
       else None) = None) \<longleftrightarrow>
     (truthy (getprop claims ''nbf'') \<longrightarrow>
          js_le e (getprop claims ''nbf'') (getprop claims ''iat'') = Returns False
          \<and> js_gt e (getprop claims ''nbf'') (Some (JNum now2)) = Returns False)"
    by (cases "truthy (getprop claims ''nbf'')") (simp_all add: firstThrow_None_iff)
  have role: "((if mtype m = ''Album'' then
         (case artist m of
            None \<Rightarrow> Some TypeError
          | Some ids \<Rightarrow>
              guard (\<not> list_ex (\<lambda>id. strictEq (getprop claims ''iss'') id) (addressList ids))
                IssNotArtist)
       else if mtype m = ''Composition'' then
         (case composer m of
            None \<Rightarrow> Some TypeError
          | Some ids \<Rightarrow>
              guard (\<not> list_ex (\<lambda>id. strictEq (getprop claims ''iss'') id)
                         (arrayConcat ids (lyricist m)))
                IssNotComposerOrLyricist)
       else if mtype m = ''Recording'' then
         (case performer m of
            None \<Rightarrow> Some TypeError
          | Some ids \<Rightarrow>
              guard (\<not> list_ex (\<lambda>id. strictEq (getprop claims ''iss'') id)
                         (arrayConcat ids (producer m)))
                IssNotPerformerOrProducer)
       else Some UnexpectedMetaType) = None) \<longleftrightarrow>
     ((mtype m = ''Album''
           \<and> (\<exists>ids. artist m = Some ids
                 \<and> (\<exists>id \<in> set ids. getprop claims ''iss'' = Some (JStr id))))
        \<or> (mtype m = ''Composition''
             \<and> (\<exists>ids. composer m = Some ids
                   \<and> ((\<exists>id \<in> set ids \<union> addresses (lyricist m).
                          getprop claims ''iss'' = Some (JStr id))
                      \<or> (lyricist m = None \<and> getprop claims ''iss'' = None))))
        \<or> (mtype m = ''Recording''
             \<and> (\<exists>ids. performer m = Some ids
                   \<and> ((\<exists>id \<in> set ids \<union> addresses (producer m).
                          getprop claims ''iss'' = Some (JStr id))
                      \<or> (producer m = None \<and> getprop claims ''iss'' = None)))))"
    by (simp add: list_ex_addressList list_ex_arrayConcat split: option.splits)
  show ?thesis
    unfolding firstThrow_None_iff validateClaims_checks_def all_set9 aud exp nbf role
    by simp
qed

text \<open>The sample claims pass validation at time 100.\<close>

lemma sample_license_valid:
  "validateClaims sample_env 100 100 sample_license sample_meta
     (License StringSchema StringSchema) sample_schemaMeta = (Returns True, [])"
  by code_simp

lemma sample_epoch_license_valid:
  "validateClaims sample_env 100 100 sample_epoch_license sample_meta
     (License StringSchema StringSchema) sample_schemaMeta = (Returns True, [])"
  by code_simp

lemma sample_nbf_license_valid:
  "validateClaims sample_env 100 100 sample_nbf_license sample_meta
     (License StringSchema StringSchema) sample_schemaMeta = (Returns True, [])"
  by code_simp

lemma sample_create_valid:
  "validateClaims sample_env 100 100 sample_create sample_meta
     (Create StringSchema StringSchema) sample_schemaMeta = (Returns True, [])"
  by code_simp



text \<open>
  C10. When \<^verbatim>\<open>validateMeta\<close> rejects the metadata document, \<^verbatim>\<open>validateClaims\<close> returns
  false whatever the claims are: it throws nothing and prints nothing, so none of the
  checks on the claims has run and no failure of the claims is recorded.
\<close>

theorem validateMeta_gates_validateClaims:
  "\<not> validateMeta e m schemaMeta \<Longrightarrow>
   validateClaims e now1 now2 claims m schemaClaims schemaMeta = (Returns False, [])"
  by (simp add: validateClaims_unfold)

theorem validateMeta_gates_validateClaims_witness:
  "\<not> validateMeta sample_env sample_meta (Schema [Properties [(''@type'', Schema [Enum [JStr ''Album'']])]])
   \<and> validateClaims sample_env 100 100 sample_create sample_meta
        (Create StringSchema StringSchema) (Schema [Properties [(''@type'', Schema [Enum [JStr ''Album'']])]])
      = (Returns False, [])"
proof -
  have h: "\<not> validateMeta sample_env sample_meta
             (Schema [Properties [(''@type'', Schema [Enum [JStr ''Album'']])]])"
    by (simp add: sample_env_def sample_meta_def getprop_def)
  show ?thesis
    using validateMeta_gates_validateClaims[OF h, of 100 100 sample_create
        "Create StringSchema StringSchema"] h
    by simp
qed




text \<open>
  C9. \<^verbatim>\<open>validateClaims\<close> tests \<^verbatim>\<open>claims.exp\<close> and \<^verbatim>\<open>claims.nbf\<close> for truthiness. With
  \<^verbatim>\<open>exp\<close> equal to 0 none of the three checks of \<^verbatim>\<open>exp\<close> can fail, with \<^verbatim>\<open>nbf\<close> equal to
  0 neither of the two checks of \<^verbatim>\<open>nbf\<close> can, whatever the other fields and the time
  are. The sample License with \<^verbatim>\<open>exp\<close> 0, issued at time 50, is valid at time 100,
  long after its expiry.
\<close>

theorem falsy_exp_nbf_skip_checks:
  "(getprop claims ''exp'' = Some (JNum 0) \<longrightarrow>
      ExpNotAfterIat \<notin> set (snd (validateClaims e now1 now2 claims m schemaClaims schemaMeta))
      \<and> ExpNotAfterNbf \<notin> set (snd (validateClaims e now1 now2 claims m schemaClaims schemaMeta))
      \<and> ClaimsExpired \<notin> set (snd (validateClaims e now1 now2 claims m schemaClaims schemaMeta)))
   \<and> (getprop claims ''nbf'' = Some (JNum 0) \<longrightarrow>
      NbfNotAfterIat \<notin> set (snd (validateClaims e now1 now2 claims m schemaClaims schemaMeta))
      \<and> ClaimsNotYetValid \<notin> set (snd (validateClaims e now1 now2 claims m schemaClaims schemaMeta)))
   \<and> getprop sample_epoch_license ''exp'' = Some (JNum 0)
   \<and> getprop sample_epoch_license ''iat'' = Some (JNum 50)
   \<and> validateClaims sample_env 100 100 sample_epoch_license sample_meta
        (License StringSchema StringSchema) sample_schemaMeta = (Returns True, [])"
proof -
  have "\<not> truthy (getprop claims ''exp'')" if "getprop claims ''exp'' = Some (JNum 0)"
    using that by simp
  then have exp: "err \<notin> set (snd (validateClaims e now1 now2 claims m schemaClaims schemaMeta))"
    if "getprop claims ''exp'' = Some (JNum 0)"
      "err = ExpNotAfterIat \<or> err = ExpNotAfterNbf \<or> err = ClaimsExpired" for err
    using that validateClaims_checks_SomeD[of err e now1 now2 claims m schemaClaims]
      validateClaims_loggedD[of err e now1 now2 claims m schemaClaims schemaMeta]
    by auto
  have "\<not> truthy (getprop claims ''nbf'')" if "getprop claims ''nbf'' = Some (JNum 0)"
    using that by simp
  then have nbf: "err \<notin> set (snd (validateClaims e now1 now2 claims m schemaClaims schemaMeta))"
    if "getprop claims ''nbf'' = Some (JNum 0)"
      "err = NbfNotAfterIat \<or> err = ClaimsNotYetValid" for err
    using that validateClaims_checks_SomeD[of err e now1 now2 claims m schemaClaims]
      validateClaims_loggedD[of err e now1 now2 claims m schemaClaims schemaMeta]
    by auto
  have sample: "getprop sample_epoch_license ''exp'' = Some (JNum 0)"
    "getprop sample_epoch_license ''iat'' = Some (JNum 50)"
    by (simp_all add: sample_epoch_license_def getprop_def)
  from exp nbf sample sample_epoch_license_valid show ?thesis by blast
qed

theorem falsy_exp_nbf_skip_checks_witness:
  "getprop sample_epoch_license ''exp'' = Some (JNum 0)
   \<and> ExpNotAfterIat \<notin> set (snd (validateClaims sample_env 100 100 sample_epoch_license
         sample_meta (License StringSchema StringSchema) sample_schemaMeta))
   \<and> ClaimsExpired \<notin> set (snd (validateClaims sample_env 100 100 sample_epoch_license
         sample_meta (License StringSchema StringSchema) sample_schemaMeta))
   \<and> getprop sample_nbf_license ''nbf'' = Some (JNum 0)
   \<and> NbfNotAfterIat \<notin> set (snd (validateClaims sample_env 100 100 sample_nbf_license
         sample_meta (License StringSchema StringSchema) sample_schemaMeta))
   \<and> validateClaims sample_env 100 100 sample_nbf_license sample_meta
        (License StringSchema StringSchema) sample_schemaMeta = (Returns True, [])"
proof -
  have a: "getprop sample_epoch_license ''exp'' = Some (JNum 0)"
    by (simp add: sample_epoch_license_def getprop_def)
  have b: "getprop sample_nbf_license ''nbf'' = Some (JNum 0)"
    by (simp add: sample_nbf_license_def getprop_def)
  show ?thesis
    using falsy_exp_nbf_skip_checks[of sample_epoch_license sample_env 100 100 sample_meta
            "License StringSchema StringSchema" sample_schemaMeta]
          falsy_exp_nbf_skip_checks[of sample_nbf_license sample_env 100 100
            sample_meta "License StringSchema StringSchema" sample_schemaMeta]
          a b sample_nbf_license_valid
    by blast
qed

text \<open>
  C3, as the specification states it, fails: the sample License expires at time 100,
  and at time 100 it is valid. The expiry check is \<^verbatim>\<open>exp < rightNow\<close>.
\<close>

theorem license_exp_equal_now_counterexample:
  "getprop sample_license ''typ'' = Some (JStr ''License'')
   \<and> getprop sample_license ''exp'' = Some (JNum 100)
   \<and> validateClaims sample_env 100 100 sample_license sample_meta
        (License StringSchema StringSchema) sample_schemaMeta = (Returns True, [])"
  by (simp add: sample_license_valid) (simp add: sample_license_def getprop_def)

text \<open>
  C3, amended. A claims object whose \<^verbatim>\<open>exp\<close> equals its \<^verbatim>\<open>iat\<close> and is not 0 fails
  validation, and so does one whose \<^verbatim>\<open>exp\<close> is not 0 and is less than the current
  time. One whose \<^verbatim>\<open>exp\<close> equals the current time, or the current time plus one,
  passes the expiry check: that check fails only if \<^verbatim>\<open>exp\<close> is less than the current
  time.
\<close>

theorem license_temporal_boundary:
  assumes "getprop claims ''exp'' = Some (JNum x)"
  shows "(x \<noteq> 0 \<and> getprop claims ''iat'' = Some (JNum x) \<longrightarrow>
            fst (validateClaims e now1 now2 claims m schemaClaims schemaMeta) = Returns False)
       \<and> (x \<noteq> 0 \<and> x < now2 \<longrightarrow>
            fst (validateClaims e now1 now2 claims m schemaClaims schemaMeta) = Returns False)
       \<and> (x = now2 \<or> x = now2 + 1 \<longrightarrow>
            ClaimsExpired \<notin> set (snd (validateClaims e now1 now2 claims m schemaClaims schemaMeta)))
       \<and> (ClaimsExpired \<in> set (snd (validateClaims e now1 now2 claims m schemaClaims schemaMeta))
            \<longrightarrow> x < now2)"
proof (intro conjI impI)
  assume a: "x \<noteq> 0 \<and> getprop claims ''iat'' = Some (JNum x)"
  with assms have "truthy (getprop claims ''exp'')"
    "js_le e (getprop claims ''exp'') (getprop claims ''iat'') = Returns True"
    by simp_all
  then have "firstThrow (validateClaims_checks e now1 now2 claims m schemaClaims) \<noteq> None"
    unfolding validateClaims_checks_None_iff by simp
  then show "fst (validateClaims e now1 now2 claims m schemaClaims schemaMeta) = Returns False"
    by (auto simp: validateClaims_unfold split: option.splits)
next
  assume a: "x \<noteq> 0 \<and> x < now2"
  with assms have "truthy (getprop claims ''exp'')"
    "js_lt e (getprop claims ''exp'') (Some (JNum now2)) = Returns True"
    by simp_all
  then have "firstThrow (validateClaims_checks e now1 now2 claims m schemaClaims) \<noteq> None"
    unfolding validateClaims_checks_None_iff by simp
  then show "fst (validateClaims e now1 now2 claims m schemaClaims schemaMeta) = Returns False"
    by (auto simp: validateClaims_unfold split: option.splits)
next
  assume "x = now2 \<or> x = now2 + 1"
  with assms have "js_lt e (getprop claims ''exp'') (Some (JNum now2)) \<noteq> Returns True"
    by auto
  then show "ClaimsExpired \<notin> set (snd (validateClaims e now1 now2 claims m schemaClaims schemaMeta))"
    using validateClaims_checks_SomeD[of ClaimsExpired e now1 now2 claims m schemaClaims]
      validateClaims_loggedD[of ClaimsExpired e now1 now2 claims m schemaClaims schemaMeta]
    by auto
next
  assume "ClaimsExpired \<in> set (snd (validateClaims e now1 now2 claims m schemaClaims schemaMeta))"
  then have "js_lt e (getprop claims ''exp'') (Some (JNum now2)) = Returns True"
    using validateClaims_checks_SomeD[of ClaimsExpired e now1 now2 claims m schemaClaims]
      validateClaims_loggedD[of ClaimsExpired e now1 now2 claims m schemaClaims schemaMeta]
    by auto
  with assms show "x < now2" by simp
qed

theorem license_temporal_boundary_witness:
  "getprop sample_license ''exp'' = Some (JNum 100)
   \<and> ClaimsExpired \<notin> set (snd (validateClaims sample_env 100 100 sample_license sample_meta
         (License StringSchema StringSchema) sample_schemaMeta))
   \<and> ClaimsExpired \<notin> set (snd (validateClaims sample_env 99 99 sample_license sample_meta
         (License StringSchema StringSchema) sample_schemaMeta))
   \<and> fst (validateClaims sample_env 101 101 sample_license sample_meta
         (License StringSchema StringSchema) sample_schemaMeta) = Returns False
   \<and> getprop (setprop sample_license ''iat'' (JNum 100)) ''exp'' = Some (JNum 100)
   \<and> getprop (setprop sample_license ''iat'' (JNum 100)) ''iat'' = Some (JNum 100)
   \<and> fst (validateClaims sample_env 100 100 (setprop sample_license ''iat'' (JNum 100)) sample_meta
         (License StringSchema StringSchema) sample_schemaMeta) = Returns False"
proof -
  have a: "getprop sample_license ''exp'' = Some (JNum 100)"
    by (simp add: sample_license_def getprop_def)
  have b: "getprop (setprop sample_license ''iat'' (JNum 100)) ''exp'' = Some (JNum 100)"
    "getprop (setprop sample_license ''iat'' (JNum 100)) ''iat'' = Some (JNum 100)"
    by (simp_all add: sample_license_def getprop_def)
  show ?thesis
    using license_temporal_boundary[OF a, of sample_env 100 100 sample_meta
            "License StringSchema StringSchema" sample_schemaMeta]
          license_temporal_boundary[OF a, of sample_env 99 99 sample_meta
            "License StringSchema StringSchema" sample_schemaMeta]
          license_temporal_boundary[OF a, of sample_env 101 101 sample_meta
            "License StringSchema StringSchema" sample_schemaMeta]
          license_temporal_boundary[OF b(1), of sample_env 100 100 sample_meta
            "License StringSchema StringSchema" sample_schemaMeta]
          a b
    by simp
qed



section \<open>The header builders\<close>

text \<open>
  C4, as the specification states it, fails: for the empty key, which is not 32 bytes
  long, \<^verbatim>\<open>ed25519Header\<close> throws nothing to its caller and returns the empty object.
\<close>

theorem header_builder_returns_empty_counterexample:
  "length ([] :: bytes) \<noteq> 32 \<and> fst (ed25519Header sample_env []) = Returns []"
  by (simp add: ed25519Header_def ed25519Header_try_def)

text \<open>
  C4, amended. For a key that is not 32 bytes long \<^verbatim>\<open>ed25519Header\<close> prints the
  length error and returns the empty object; so does \<^verbatim>\<open>secp256k1Header\<close> for a key that
  is not 33 bytes long. Neither throws.
\<close>

theorem header_builders_bad_length:
  "(length publicKey \<noteq> 32 \<longrightarrow>
      ed25519Header e publicKey = (Returns [], [KeyLength 32 (length publicKey)]))
   \<and> (length publicKey \<noteq> 33 \<longrightarrow>
      secp256k1Header e publicKey = (Returns [], [KeyLength 33 (length publicKey)]))"
  by (simp add: ed25519Header_def ed25519Header_try_def
        secp256k1Header_def secp256k1Header_try_def)

theorem header_builders_bad_length_witness:
  "length [1, 2, 3 :: 8 word] \<noteq> 32 \<and> length [1, 2, 3 :: 8 word] \<noteq> 33
   \<and> ed25519Header sample_env [1, 2, 3] = (Returns [], [KeyLength 32 3])
   \<and> secp256k1Header sample_env [1, 2, 3] = (Returns [], [KeyLength 33 3])"
  using header_builders_bad_length[of "[1, 2, 3]" sample_env] by simp

section \<open>Verification\<close>

lemma same_mapping_JStr [simp]: "same_mapping v (JStr s) \<longleftrightarrow> v = JStr s"
  by (cases v) auto

lemma enum1 [simp]: "validateSchema v (Schema [Enum [JStr s]]) \<longleftrightarrow> v = JStr s"
  by simp

text \<open>What the \<^verbatim>\<open>PublicKey\<close> schema asks of a value.\<close>

lemma PublicKey_valid_iff:
  "validateSchema v PublicKey \<longleftrightarrow>
     (\<exists>jwk x. v = JObj jwk \<and> getprop jwk ''x'' = Some (JStr x)
        \<and> matches (ClassRepeat base64url 43) x
        \<and> ((getprop jwk ''crv'' = Some (JStr ''Ed25519'')
              \<and> getprop jwk ''kty'' = Some (JStr ''OKP''))
           \<or> (getprop jwk ''crv'' = Some (JStr ''P-256'')
              \<and> getprop jwk ''kty'' = Some (JStr ''EC'')
              \<and> (\<exists>y. getprop jwk ''y'' = Some (JStr y)
                    \<and> matches (ClassRepeat base64url 43) y))))"
proof (cases v)
  case (JObj jwk)
  show ?thesis
    unfolding JObj PublicKey_def
    by (cases "getprop jwk ''x''"; cases "getprop jwk ''crv''"; cases "getprop jwk ''kty''";
        cases "getprop jwk ''y''")
       (auto simp: hasType_def split: json.splits)
qed (simp_all add: PublicKey_def hasType_def)

lemma Header_valid_iff:
  "validateSchema (JObj h) Header \<longleftrightarrow>
     getprop h ''typ'' = Some (JStr ''JWT'')
     \<and> (\<exists>jwk. getprop h ''jwk'' = Some (JObj jwk) \<and> validateSchema (JObj jwk) PublicKey
          \<and> ((getprop h ''alg'' = Some (JStr ''EdDsa'')
                \<and> getprop jwk ''crv'' = Some (JStr ''Ed25519''))
             \<or> (getprop h ''alg'' = Some (JStr ''ES256'')
                \<and> getprop jwk ''crv'' = Some (JStr ''P-256''))))"
proof (cases "getprop h ''jwk''")
  case None
  then show ?thesis by (simp add: Header_def hasType_def)
next
  case (Some v)
  show ?thesis
  proof (cases v)
    case (JObj jwk)
    show ?thesis
      unfolding Header_def
      by (cases "getprop h ''typ''"; cases "getprop h ''alg''"; cases "getprop jwk ''crv''")
         (auto simp: hasType_def Some JObj PublicKey_valid_iff)
  qed (insert Some, auto simp: Header_def hasType_def PublicKey_valid_iff)
qed

lemma Header_valid_cases:
  assumes "validateSchema (JObj h) Header"
  obtains (EdDsa) x where "getprop h ''alg'' = Some (JStr ''EdDsa'')" "jwkString h ''x'' = Some x"
  | (ES256) x y where "getprop h ''alg'' = Some (JStr ''ES256'')"
      "jwkString h ''x'' = Some x" "jwkString h ''y'' = Some y"
proof -
  from assms obtain jwk where jwk: "getprop h ''jwk'' = Some (JObj jwk)"
      "validateSchema (JObj jwk) PublicKey"
      "(getprop h ''alg'' = Some (JStr ''EdDsa'') \<and> getprop jwk ''crv'' = Some (JStr ''Ed25519''))
       \<or> (getprop h ''alg'' = Some (JStr ''ES256'') \<and> getprop jwk ''crv'' = Some (JStr ''P-256''))"
    unfolding Header_valid_iff by blast
  from jwk(2) obtain x where x: "getprop jwk ''x'' = Some (JStr x)"
    and crv: "getprop jwk ''crv'' = Some (JStr ''Ed25519'')
              \<or> (getprop jwk ''crv'' = Some (JStr ''P-256'')
                  \<and> (\<exists>y. getprop jwk ''y'' = Some (JStr y)))"
    unfolding PublicKey_valid_iff by blast
  from jwk(3) show thesis
  proof
    assume "getprop h ''alg'' = Some (JStr ''EdDsa'') \<and> getprop jwk ''crv'' = Some (JStr ''Ed25519'')"
    then show thesis using EdDsa[of x] jwk(1) x by (simp add: jwkString_def)
  next
    assume a: "getprop h ''alg'' = Some (JStr ''ES256'') \<and> getprop jwk ''crv'' = Some (JStr ''P-256'')"
    with crv obtain y where "getprop jwk ''y'' = Some (JStr y)" by auto
    then show thesis using ES256[of x y] jwk(1) x a by (simp add: jwkString_def)
  qed
qed

lemma verifyClaims_returns:
  "fst (verifyClaims e now1 now2 claims header m schemaClaims schemaMeta signature)
     = Returns
         (validateSchema (JObj header) Header
          \<and> fst (validateClaims e now1 now2 claims m schemaClaims schemaMeta) = Returns True
          \<and> (case headerPublicKey e header of
               None \<Rightarrow> False
             | Some publicKey \<Rightarrow>
                 getprop claims ''iss'' = Some (JStr (publicKey2Addr e publicKey))
                 \<and> curveVerify e header (signingInput e header claims) publicKey signature))"
proof (cases "validateSchema (JObj header) Header")
  case False
  then show ?thesis by (simp add: verifyClaims_def verifyClaims_try_def)
next
  case True
  show ?thesis
  proof (cases "fst (validateClaims e now1 now2 claims m schemaClaims schemaMeta) = Returns True")
    case False
    then show ?thesis
      using True
      by (cases "validateClaims e now1 now2 claims m schemaClaims schemaMeta")
         (auto simp: verifyClaims_def verifyClaims_try_def split: outcome.splits bool.splits)
  next
    case valid: True
    then obtain log where v: "validateClaims e now1 now2 claims m schemaClaims schemaMeta
        = (Returns True, log)"
      by (cases "validateClaims e now1 now2 claims m schemaClaims schemaMeta") auto
    have run: "fst (verifyClaims e now1 now2 claims header m schemaClaims schemaMeta signature)
        = Returns (firstThrow (verifyClaims_checks e claims header signature) = None)"
      using True v by (simp add: verifyClaims_def verifyClaims_try_def split: option.splits)
    from True show ?thesis
    proof (cases rule: Header_valid_cases)
      case (EdDsa x)
      then show ?thesis
        using True valid run
        by (simp add: verifyClaims_checks_def headerPublicKey_def curveVerify_def
              signingInput_def firstThrow_None_iff Let_def)
    next
      case (ES256 x y)
      then show ?thesis
        using True valid run
        by (simp add: verifyClaims_checks_def headerPublicKey_def curveVerify_def
              signingInput_def firstThrow_None_iff Let_def)
    qed
  qed
qed

lemma sample_header_schema: "validateSchema (JObj sample_header) Header"
  by code_simp

lemma sample_header_key: "headerPublicKey sample_env sample_header = Some sample_key"
  by code_simp

lemma sample_signature:
  "curveVerify sample_env sample_header (signingInput sample_env sample_header sample_create)
     sample_key (signClaims sample_env sample_create sample_header sample_key)"
  by code_simp

lemma sample_issuer:
  "getprop sample_create ''iss'' = Some (JStr (publicKey2Addr sample_env sample_key))"
  by code_simp

lemma sample_other_header_schema: "validateSchema (JObj sample_other_header) Header"
  by code_simp

lemma sample_other_header_key:
  "headerPublicKey sample_env sample_other_header = Some sample_other_key"
  by code_simp

lemma sample_other_issuer:
  "getprop sample_create ''iss'' \<noteq> Some (JStr (publicKey2Addr sample_env sample_other_key))"
  by code_simp

lemma sample_other_signature:
  "curveVerify sample_env sample_other_header
     (signingInput sample_env sample_other_header sample_create) sample_other_key
     (signClaims sample_env sample_create sample_other_header sample_other_key)"
  by code_simp

lemma sample_other_rejected:
  "verifyClaims sample_env 100 100 sample_create sample_other_header sample_meta
     (Create StringSchema StringSchema) sample_schemaMeta
     (signClaims sample_env sample_create sample_other_header sample_other_key)
   = (Returns False, [PublicKeyAddrMismatch])"
  by code_simp

text \<open>
  C2. \<^verbatim>\<open>verifyClaims\<close> always returns a boolean, and it returns true exactly when the
  header passes the \<^verbatim>\<open>Header\<close> schema, \<^verbatim>\<open>validateClaims\<close> returns true, \<^verbatim>\<open>claims.iss\<close> is
  the address of the public key that the header carries for the curve of its \<^verbatim>\<open>alg\<close>,
  and that curve verifies the signature of \<^verbatim>\<open>encodedHeader + "." + encodedPayload\<close>.
  In particular, when \<^verbatim>\<open>claims.iss\<close> is not the address of the key, it returns false
  even if the signature is valid.
\<close>

theorem verifyClaims_iff:
  "fst (verifyClaims e now1 now2 claims header m schemaClaims schemaMeta signature)
     = Returns
         (validateSchema (JObj header) Header
          \<and> fst (validateClaims e now1 now2 claims m schemaClaims schemaMeta) = Returns True
          \<and> (case headerPublicKey e header of
               None \<Rightarrow> False
             | Some publicKey \<Rightarrow>
                 getprop claims ''iss'' = Some (JStr (publicKey2Addr e publicKey))
                 \<and> curveVerify e header (signingInput e header claims) publicKey signature))
   \<and> (headerPublicKey e header = Some publicKey
        \<and> getprop claims ''iss'' \<noteq> Some (JStr (publicKey2Addr e publicKey))
        \<and> curveVerify e header (signingInput e header claims) publicKey signature
      \<longrightarrow> fst (verifyClaims e now1 now2 claims header m schemaClaims schemaMeta signature)
            = Returns False)"
  by (simp add: verifyClaims_returns)

theorem verifyClaims_iff_witness:
  "fst (verifyClaims sample_env 100 100 sample_create sample_header sample_meta
          (Create StringSchema StringSchema) sample_schemaMeta
          (signClaims sample_env sample_create sample_header sample_key)) = Returns True
   \<and> fst (validateClaims sample_env 100 100 sample_create sample_meta
          (Create StringSchema StringSchema) sample_schemaMeta) = Returns True
   \<and> headerPublicKey sample_env sample_other_header = Some sample_other_key
   \<and> getprop sample_create ''iss''
        \<noteq> Some (JStr (publicKey2Addr sample_env sample_other_key))
   \<and> curveVerify sample_env sample_other_header
        (signingInput sample_env sample_other_header sample_create) sample_other_key
        (signClaims sample_env sample_create sample_other_header sample_other_key)
   \<and> fst (verifyClaims sample_env 100 100 sample_create sample_other_header sample_meta
          (Create StringSchema StringSchema) sample_schemaMeta
          (signClaims sample_env sample_create sample_other_header sample_other_key))
        = Returns False
   \<and> snd (verifyClaims sample_env 100 100 sample_create sample_other_header sample_meta
          (Create StringSchema StringSchema) sample_schemaMeta
          (signClaims sample_env sample_create sample_other_header sample_other_key))
        = [PublicKeyAddrMismatch]"
  using verifyClaims_iff[of sample_env 100 100 sample_create sample_header sample_meta
          "Create StringSchema StringSchema" sample_schemaMeta
          "signClaims sample_env sample_create sample_header sample_key" sample_key]
        verifyClaims_iff[of sample_env 100 100 sample_create sample_other_header sample_meta
          "Create StringSchema StringSchema" sample_schemaMeta
          "signClaims sample_env sample_create sample_other_header sample_other_key"
          sample_other_key]
        sample_header_schema sample_create_valid sample_header_key sample_signature
        sample_issuer sample_other_issuer sample_other_signature sample_other_header_key
        sample_other_rejected
  by simp

subsection \<open>Signing, then verifying\<close>

lemma asNum_Some: "asNum v = Some n \<longleftrightarrow> v = Some (JNum n)"
  by (cases v rule: asNum.cases) auto

lemma asArr_Some: "asArr v = Some xs \<longleftrightarrow> v = Some (JArr xs)"
  by (cases v rule: asArr.cases) auto

lemma list_ex_strictEq_Some:
  "list_ex (\<lambda>aud. strictEq (Some aud) (Some (JStr a))) auds \<longleftrightarrow> JStr a \<in> set auds"
  by (auto simp: list_ex_iff)

text \<open>
  An address in the role-address set of a document that has its lists is found by the
  search of \<^verbatim>\<open>validateClaims\<close>.
\<close>

lemma roleAddresses_found:
  assumes "hasRoleLists m" and "a \<in> roleAddresses m" and "iss = Some (JStr a)"
  shows "(mtype m = ''Album''
           \<and> (\<exists>ids. artist m = Some ids \<and> (\<exists>id \<in> set ids. iss = Some (JStr id))))
        \<or> (mtype m = ''Composition''
             \<and> (\<exists>ids. composer m = Some ids
                   \<and> ((\<exists>id \<in> set ids \<union> addresses (lyricist m). iss = Some (JStr id))
                      \<or> (lyricist m = None \<and> iss = None))))
        \<or> (mtype m = ''Recording''
             \<and> (\<exists>ids. performer m = Some ids
                   \<and> ((\<exists>id \<in> set ids \<union> addresses (producer m). iss = Some (JStr id))
                      \<or> (producer m = None \<and> iss = None))))"
proof -
  consider "mtype m = ''Album''" | "mtype m = ''Composition''" | "mtype m = ''Recording''"
    using assms(2) by (auto simp: roleAddresses_def split: if_splits)
  then show ?thesis
  proof cases
    case 1
    with assms obtain ids where "artist m = Some ids" "a \<in> set ids"
      by (auto simp: hasRoleLists_def roleAddresses_def addresses_def)
    with 1 assms(3) show ?thesis by auto
  next
    case 2
    with assms obtain ids where "composer m = Some ids" "a \<in> set ids \<union> addresses (lyricist m)"
      by (auto simp: hasRoleLists_def roleAddresses_def addresses_def)
    with 2 assms(3) show ?thesis by auto
  next
    case 3
    with assms obtain ids where "performer m = Some ids" "a \<in> set ids \<union> addresses (producer m)"
      by (auto simp: hasRoleLists_def roleAddresses_def addresses_def)
    with 3 assms(3) show ?thesis by auto
  qed
qed

text \<open>Claims that satisfy the invariants at both readings of the clock pass every check.\<close>

lemma valid_claims_pass:
  assumes v1: "valid_claims e now1 claims m publicKey"
    and v2: "valid_claims e now2 claims m publicKey"
    and schema: "validateSchema (JObj claims) schemaClaims"
  shows "firstThrow (validateClaims_checks e now1 now2 claims m schemaClaims) = None"
proof -
  from v1 obtain t where t: "getprop claims ''iat'' = Some (JNum t)"
    by (auto simp: valid_claims_def asNum_Some split: option.splits)
  from v1 v2 t have common:
    "t \<le> now1"
    "getprop claims ''iss'' = Some (JStr (publicKey2Addr e publicKey))"
    "publicKey2Addr e publicKey \<in> roleAddresses m"
    "getprop claims ''jti'' = Some (JStr (calcClaimsId e claims))"
    "getprop claims ''sub'' = Some (JStr (calcMetaId e m))"
    "hasRoleLists m"
    by (simp_all add: valid_claims_def)
  have iat: "js_gt e (getprop claims ''iat'') (Some (JNum now1)) = Returns False"
    using t common(1) by simp
  have role: "(mtype m = ''Album''
           \<and> (\<exists>ids. artist m = Some ids
                 \<and> (\<exists>id \<in> set ids. getprop claims ''iss'' = Some (JStr id))))
        \<or> (mtype m = ''Composition''
             \<and> (\<exists>ids. composer m = Some ids
                   \<and> ((\<exists>id \<in> set ids \<union> addresses (lyricist m).
                          getprop claims ''iss'' = Some (JStr id))
                      \<or> (lyricist m = None \<and> getprop claims ''iss'' = None))))
        \<or> (mtype m = ''Recording''
             \<and> (\<exists>ids. performer m = Some ids
                   \<and> ((\<exists>id \<in> set ids \<union> addresses (producer m).
                          getprop claims ''iss'' = Some (JStr id))
                      \<or> (producer m = None \<and> getprop claims ''iss'' = None))))"
    using common(6,3,2) by (rule roleAddresses_found)
  show ?thesis
  proof (cases "getprop claims ''typ'' = Some (JStr ''Create'')")
    case True
    with v1 t have "getprop claims ''aud'' = None" "getprop claims ''exp'' = None"
      "getprop claims ''nbf'' = None"
      by (simp_all add: valid_claims_def)
    then show ?thesis
      unfolding validateClaims_checks_None_iff
      using True schema iat common(4,5) role by simp
  next
    case False
    with v1 t have ty: "getprop claims ''typ'' = Some (JStr ''License'')"
      by (simp add: valid_claims_def)
    from v1 v2 t False obtain auds x where
      aud: "getprop claims ''aud'' = Some (JArr auds)"
      and x: "getprop claims ''exp'' = Some (JNum x)"
      and lic: "JStr (publicKey2Addr e publicKey) \<notin> set auds" "t < x" "now2 \<le> x"
      and nbf: "getprop claims ''nbf'' = None
                \<or> (\<exists>n. getprop claims ''nbf'' = Some (JNum n) \<and> n < x \<and> t < n \<and> n \<le> now2)"
      by (auto simp: valid_claims_def asNum_Some asArr_Some split: option.splits prod.splits)
    have audc: "truthy (getprop claims ''aud'') \<longrightarrow>
          (\<exists>auds. getprop claims ''aud'' = Some (JArr auds)
             \<and> \<not> list_ex (\<lambda>aud. strictEq (Some aud) (getprop claims ''iss'')) auds)"
      using aud lic(1) common(2) by (simp add: list_ex_strictEq_Some del: strictEq_JStr)
    have expc: "truthy (getprop claims ''exp'') \<longrightarrow>
          js_le e (getprop claims ''exp'') (getprop claims ''iat'') = Returns False
          \<and> (truthy (getprop claims ''nbf'') \<longrightarrow>
                js_le e (getprop claims ''exp'') (getprop claims ''nbf'') = Returns False)
          \<and> js_lt e (getprop claims ''exp'') (Some (JNum now2)) = Returns False"
      using x t lic(2,3) nbf by auto
    have nbfc: "truthy (getprop claims ''nbf'') \<longrightarrow>
          js_le e (getprop claims ''nbf'') (getprop claims ''iat'') = Returns False
          \<and> js_gt e (getprop claims ''nbf'') (Some (JNum now2)) = Returns False"
      using t nbf by auto
    show ?thesis
      unfolding validateClaims_checks_None_iff
      using ty schema iat audc expc nbfc common(4,5) role by (intro conjI) simp_all
  qed
qed

lemma built_ed25519_header:
  assumes "length publicKey = 32"
  shows "fst (ed25519Header e publicKey) = Returns
     [(''alg'', JStr ''EdDsa''),
      (''jwk'', JObj
         [(''x'', JStr (encodeBase64 e (Buffer publicKey))),
          (''crv'', JStr ''Ed25519''),
          (''kty'', JStr ''OKP'')]),
      (''typ'', JStr ''JWT'')]"
  using assms by (simp add: ed25519Header_def ed25519Header_try_def)

lemma built_secp256k1_header:
  assumes "length publicKey = 33"
  shows "fst (secp256k1Header e publicKey) = Returns
     [(''alg'', JStr ''ES256''),
      (''jwk'', JObj
         [(''x'', JStr (encodeBase64 e (Buffer (fst (secp256k1_uncompress e publicKey))))),
          (''y'', JStr (encodeBase64 e (Buffer (snd (secp256k1_uncompress e publicKey))))),
          (''crv'', JStr ''P-256''),
          (''kty'', JStr ''EC'')]),
      (''typ'', JStr ''JWT'')]"
  using assms by (simp add: secp256k1Header_def secp256k1Header_try_def Let_def)

lemma ed25519_roundtrip:
  assumes hdr: "fst (ed25519Header e publicKey) = Returns header"
    and kp: "ed25519_keypair e publicKey secretKey (signingInput e header claims)"
    and valid: "fst (validateClaims e now1 now2 claims m schemaClaims schemaMeta) = Returns True"
    and iss: "getprop claims ''iss'' = Some (JStr (publicKey2Addr e publicKey))"
  shows "fst (verifyClaims e now1 now2 claims header m schemaClaims schemaMeta
               (signClaims e claims header secretKey)) = Returns True"
proof -
  from kp have len: "length publicKey = 32"
    and pat: "matches (ClassRepeat base64url 43) (encodeBase64 e (Buffer publicKey))"
    and dec: "decodeBase64 e (encodeBase64 e (Buffer publicKey)) = publicKey"
    and ver: "ed25519_verify e (signingInput e header claims) publicKey
                (ed25519_sign e (signingInput e header claims) secretKey)"
    by (simp_all add: ed25519_keypair_def codec_roundtrip_def)
  from hdr built_ed25519_header[OF len, of e] have header: "header =
     [(''alg'', JStr ''EdDsa''),
      (''jwk'', JObj
         [(''x'', JStr (encodeBase64 e (Buffer publicKey))),
          (''crv'', JStr ''Ed25519''),
          (''kty'', JStr ''OKP'')]),
      (''typ'', JStr ''JWT'')]"
    by simp
  have alg: "getprop header ''alg'' = Some (JStr ''EdDsa'')"
    by (simp add: header getprop_def)
  have schema: "validateSchema (JObj header) Header"
    unfolding Header_valid_iff PublicKey_valid_iff using pat
    by (simp add: header getprop_def)
  have key: "headerPublicKey e header = Some publicKey"
    using dec by (simp add: headerPublicKey_def alg) (simp add: header jwkString_def getprop_def)
  have sig: "signClaims e claims header secretKey
           = ed25519_sign e (signingInput e header claims) secretKey"
    by (simp add: signClaims_def signingInput_def alg Let_def)
  show ?thesis
    using schema valid key iss ver
    by (simp add: verifyClaims_returns sig curveVerify_def alg)
qed

lemma secp256k1_roundtrip:
  assumes hdr: "fst (secp256k1Header e publicKey) = Returns header"
    and kp: "secp256k1_keypair e publicKey secretKey (signingInput e header claims)"
    and valid: "fst (validateClaims e now1 now2 claims m schemaClaims schemaMeta) = Returns True"
    and iss: "getprop claims ''iss'' = Some (JStr (publicKey2Addr e publicKey))"
  shows "fst (verifyClaims e now1 now2 claims header m schemaClaims schemaMeta
               (signClaims e claims header secretKey)) = Returns True"
proof -
  let ?x = "fst (secp256k1_uncompress e publicKey)"
  let ?y = "snd (secp256k1_uncompress e publicKey)"
  from kp have len: "length publicKey = 33"
    and patx: "matches (ClassRepeat base64url 43) (encodeBase64 e (Buffer ?x))"
    and decx: "decodeBase64 e (encodeBase64 e (Buffer ?x)) = ?x"
    and paty: "matches (ClassRepeat base64url 43) (encodeBase64 e (Buffer ?y))"
    and decy: "decodeBase64 e (encodeBase64 e (Buffer ?y)) = ?y"
    and comp: "secp256k1_compress e ?x ?y = publicKey"
    and ver: "secp256k1_verify e (signingInput e header claims) publicKey
                (secp256k1_sign e (signingInput e header claims) secretKey)"
    by (simp_all add: secp256k1_keypair_def codec_roundtrip_def)
  from hdr built_secp256k1_header[OF len, of e] have header: "header =
     [(''alg'', JStr ''ES256''),
      (''jwk'', JObj
         [(''x'', JStr (encodeBase64 e (Buffer ?x))),
          (''y'', JStr (encodeBase64 e (Buffer ?y))),
          (''crv'', JStr ''P-256''),
          (''kty'', JStr ''EC'')]),
      (''typ'', JStr ''JWT'')]"
    by simp
  have alg: "getprop header ''alg'' = Some (JStr ''ES256'')"
    by (simp add: header getprop_def)
  have schema: "validateSchema (JObj header) Header"
    unfolding Header_valid_iff PublicKey_valid_iff using patx paty
    by (simp add: header getprop_def)
  have key: "headerPublicKey e header = Some publicKey"
    using decx decy comp
    by (simp add: headerPublicKey_def alg) (simp add: header jwkString_def getprop_def)
  have sig: "signClaims e claims header secretKey
           = secp256k1_sign e (signingInput e header claims) secretKey"
    by (simp add: signClaims_def signingInput_def alg Let_def)
  show ?thesis
    using schema valid key iss ver
    by (simp add: verifyClaims_returns sig curveVerify_def alg)
qed

lemma sample_header_built:
  "fst (ed25519Header sample_env sample_key) = Returns sample_header"
  by code_simp

lemma sample_secp_header_built:
  "fst (secp256k1Header sample_env sample_secp_key) = Returns sample_secp_header"
  by code_simp

lemma sample_create_invariants:
  "valid_claims sample_env 100 sample_create sample_meta sample_key"
  "valid_claims sample_env 100 sample_create sample_meta sample_secp_key"
  by code_simp+

lemma sample_create_schema:
  "validateSchema (JObj sample_create) (Create StringSchema StringSchema)"
  by code_simp

lemma sample_meta_schema: "validateMeta sample_env sample_meta sample_schemaMeta"
  by code_simp

lemma sample_keypair:
  "ed25519_keypair sample_env sample_key sample_key
     (signingInput sample_env sample_header sample_create)"
  by code_simp

lemma sample_secp_keypair:
  "secp256k1_keypair sample_env sample_secp_key sample_secp_key
     (signingInput sample_env sample_secp_header sample_create)"
  by code_simp

text \<open>
  C1. Let the claims satisfy the invariants of the data model at both readings of the
  clock, conform to the schema they are validated against, and refer to a metadata
  document that has its role-address lists and that \<^verbatim>\<open>validateMeta\<close> accepts. Let the header be the one \<^verbatim>\<open>ed25519Header\<close> or
  \<^verbatim>\<open>secp256k1Header\<close> returns for the public key that matches the secret key. Then
  \<^verbatim>\<open>verifyClaims\<close> returns true for the signature that \<^verbatim>\<open>signClaims\<close> makes.
\<close>

theorem sign_verify_roundtrip:
  assumes "valid_claims e now1 claims m publicKey"
    and "valid_claims e now2 claims m publicKey"
    and "validateSchema (JObj claims) schemaClaims"
    and "validateMeta e m schemaMeta"
    and "(fst (ed25519Header e publicKey) = Returns header
            \<and> ed25519_keypair e publicKey secretKey (signingInput e header claims))
         \<or> (fst (secp256k1Header e publicKey) = Returns header
            \<and> secp256k1_keypair e publicKey secretKey (signingInput e header claims))"
  shows "fst (verifyClaims e now1 now2 claims header m schemaClaims schemaMeta
               (signClaims e claims header secretKey)) = Returns True"
proof -
  have valid: "fst (validateClaims e now1 now2 claims m schemaClaims schemaMeta) = Returns True"
    using valid_claims_pass[OF assms(1-3)] assms(4) by (simp add: validateClaims_succeeds_iff)
  have iss: "getprop claims ''iss'' = Some (JStr (publicKey2Addr e publicKey))"
    using assms(1) by (auto simp: valid_claims_def split: option.splits)
  from assms(5) show ?thesis
  proof
    assume "fst (ed25519Header e publicKey) = Returns header
            \<and> ed25519_keypair e publicKey secretKey (signingInput e header claims)"
    then show ?thesis using ed25519_roundtrip valid iss by blast
  next
    assume "fst (secp256k1Header e publicKey) = Returns header
            \<and> secp256k1_keypair e publicKey secretKey (signingInput e header claims)"
    then show ?thesis using secp256k1_roundtrip valid iss by blast
  qed
qed

theorem sign_verify_roundtrip_witness:
  "valid_claims sample_env 100 sample_create sample_meta sample_key
   \<and> validateSchema (JObj sample_create) (Create StringSchema StringSchema)
   \<and> validateMeta sample_env sample_meta sample_schemaMeta
   \<and> fst (ed25519Header sample_env sample_key) = Returns sample_header
   \<and> ed25519_keypair sample_env sample_key sample_key
         (signingInput sample_env sample_header sample_create)
   \<and> fst (verifyClaims sample_env 100 100 sample_create sample_header sample_meta
             (Create StringSchema StringSchema) sample_schemaMeta
             (signClaims sample_env sample_create sample_header sample_key)) = Returns True
   \<and> valid_claims sample_env 100 sample_create sample_meta sample_secp_key
   \<and> fst (secp256k1Header sample_env sample_secp_key) = Returns sample_secp_header
   \<and> secp256k1_keypair sample_env sample_secp_key sample_secp_key
         (signingInput sample_env sample_secp_header sample_create)
   \<and> fst (verifyClaims sample_env 100 100 sample_create sample_secp_header sample_meta
             (Create StringSchema StringSchema) sample_schemaMeta
             (signClaims sample_env sample_create sample_secp_header sample_secp_key)) = Returns True"
proof -
  have ed: "(fst (ed25519Header sample_env sample_key) = Returns sample_header
            \<and> ed25519_keypair sample_env sample_key sample_key
                 (signingInput sample_env sample_header sample_create))
         \<or> (fst (secp256k1Header sample_env sample_key) = Returns sample_header
            \<and> secp256k1_keypair sample_env sample_key sample_key
                 (signingInput sample_env sample_header sample_create))"
    using sample_header_built sample_keypair by simp
  have secp: "(fst (ed25519Header sample_env sample_secp_key) = Returns sample_secp_header
            \<and> ed25519_keypair sample_env sample_secp_key sample_secp_key
                 (signingInput sample_env sample_secp_header sample_create))
         \<or> (fst (secp256k1Header sample_env sample_secp_key) = Returns sample_secp_header
            \<and> secp256k1_keypair sample_env sample_secp_key sample_secp_key
                 (signingInput sample_env sample_secp_header sample_create))"
    using sample_secp_header_built sample_secp_keypair by simp
  show ?thesis
    using sign_verify_roundtrip[OF sample_create_invariants(1) sample_create_invariants(1)
            sample_create_schema sample_meta_schema ed]
          sign_verify_roundtrip[OF sample_create_invariants(2) sample_create_invariants(2)
            sample_create_schema sample_meta_schema secp]
          sample_create_invariants sample_create_schema sample_meta_schema
          sample_header_built sample_keypair sample_secp_header_built sample_secp_keypair
    by simp
qed

end
